theory Spec2Isabelle
  imports Main
begin

section \<open>Time values of the JavaScript Date object\<close>

text \<open>
  server.js computes with \<^verbatim>\<open>Date\<close> objects throughout. A Date holds a time value: an
  integral number of milliseconds since 1970-01-01T00:00:00Z, or NaN (an Invalid Date).
  The time value is modelled as \<open>int option\<close>, \<open>None\<close> being NaN. The functions of this
  section are the abstract operations of ECMA-262 (section "Date Objects") under their
  own names. Numbers are unbounded integers here; they agree with the IEEE doubles of
  the engine as long as magnitudes stay below \<open>2^53\<close>, which every valid time value does.
\<close>

type_synonym jsdate = "int option"

definition msPerSecond :: int where "msPerSecond = 1000"
definition msPerMinute :: int where "msPerMinute = 60000"
definition msPerHour :: int where "msPerHour = 3600000"
definition msPerDay :: int where "msPerDay = 86400000"

definition Day :: "int \<Rightarrow> int" where
  "Day t = t div msPerDay"

definition TimeWithinDay :: "int \<Rightarrow> int" where
  "TimeWithinDay t = t mod msPerDay"

definition DaysInYear :: "int \<Rightarrow> int" where
  "DaysInYear y = (if y mod 4 \<noteq> 0 then 365 else if y mod 100 \<noteq> 0 then 366
                   else if y mod 400 \<noteq> 0 then 365 else 366)"

definition DayFromYear :: "int \<Rightarrow> int" where
  "DayFromYear y =
     365 * (y - 1970) + (y - 1969) div 4 - (y - 1901) div 100 + (y - 1601) div 400"

text \<open>
  ECMA-262 defines \<open>YearFromTime t\<close> as the largest \<open>y\<close> whose year starts at or before
  \<open>t\<close>. The definition below computes it from an estimate that is off by at most one
  year; lemmas \<open>YearFromTime_spec\<close> and \<open>YearFromTime_unique\<close> show that it is that year.
\<close>

definition YearFromTime :: "int \<Rightarrow> int" where
  "YearFromTime t = (let d = Day t; y = 1970 + (400 * d) div 146097 in
     if d < DayFromYear y then y - 1
     else if DayFromYear (y + 1) \<le> d then y + 1 else y)"

definition InLeapYear :: "int \<Rightarrow> int" where
  "InLeapYear t = (if DaysInYear (YearFromTime t) = 366 then 1 else 0)"

definition DayWithinYear :: "int \<Rightarrow> int" where
  "DayWithinYear t = Day t - DayFromYear (YearFromTime t)"

text \<open>\<open>monthStart l m\<close>: the day within the year on which month \<open>m\<close> (0 to 11) starts,
  \<open>l\<close> being 1 in a leap year and 0 otherwise (the bounds of the table of MonthFromTime).\<close>

definition monthStart :: "int \<Rightarrow> int \<Rightarrow> int" where
  "monthStart l m =
     (if m = 0 then 0 else if m = 1 then 31 else if m = 2 then 59 + l
      else if m = 3 then 90 + l else if m = 4 then 120 + l else if m = 5 then 151 + l
      else if m = 6 then 181 + l else if m = 7 then 212 + l else if m = 8 then 243 + l
      else if m = 9 then 273 + l else if m = 10 then 304 + l else 334 + l)"

definition MonthFromTime :: "int \<Rightarrow> int" where
  "MonthFromTime t = (let d = DayWithinYear t; l = InLeapYear t in
     if d < 31 then 0 else if d < 59 + l then 1 else if d < 90 + l then 2
     else if d < 120 + l then 3 else if d < 151 + l then 4 else if d < 181 + l then 5
     else if d < 212 + l then 6 else if d < 243 + l then 7 else if d < 273 + l then 8
     else if d < 304 + l then 9 else if d < 334 + l then 10 else 11)"

definition DateFromTime :: "int \<Rightarrow> int" where
  "DateFromTime t = DayWithinYear t - monthStart (InLeapYear t) (MonthFromTime t) + 1"

definition WeekDay :: "int \<Rightarrow> int" where
  "WeekDay t = (Day t + 4) mod 7"

definition HourFromTime :: "int \<Rightarrow> int" where
  "HourFromTime t = (t div msPerHour) mod 24"

definition MinFromTime :: "int \<Rightarrow> int" where
  "MinFromTime t = (t div msPerMinute) mod 60"

definition SecFromTime :: "int \<Rightarrow> int" where
  "SecFromTime t = (t div msPerSecond) mod 60"

definition msFromTime :: "int \<Rightarrow> int" where
  "msFromTime t = t mod msPerSecond"

definition MakeTime :: "int \<Rightarrow> int \<Rightarrow> int \<Rightarrow> int \<Rightarrow> int" where
  "MakeTime h m s ms = h * msPerHour + m * msPerMinute + s * msPerSecond + ms"

definition MakeDay :: "int \<Rightarrow> int \<Rightarrow> int \<Rightarrow> int" where
  "MakeDay year month dt = (let ym = year + month div 12; mn = month mod 12 in
     DayFromYear ym + monthStart (if DaysInYear ym = 366 then 1 else 0) mn + dt - 1)"

definition MakeDate :: "int \<Rightarrow> int \<Rightarrow> int" where
  "MakeDate day time = day * msPerDay + time"

definition MakeFullYear :: "int \<Rightarrow> int" where
  "MakeFullYear y = (if 0 \<le> y \<and> y \<le> 99 then 1900 + y else y)"

definition maxTime :: int where "maxTime = 8640000000000000"

definition TimeClip :: "int \<Rightarrow> jsdate" where
  "TimeClip t = (if maxTime < \<bar>t\<bar> then None else Some t)"

text \<open>
  The host's time zone enters through \<open>LocalTime\<close> and \<open>UTC\<close>. It is a parameter of the
  model: \<open>tza\<close>, the offset of local time from UTC in milliseconds (3600000 for
  Europe/Rome in winter). The offset is constant; daylight-saving transitions are outside
  this model.
\<close>

definition LocalTime :: "int \<Rightarrow> int \<Rightarrow> int" where
  "LocalTime tza t = t + tza"

definition UTC :: "int \<Rightarrow> int \<Rightarrow> int" where
  "UTC tza t = t - tza"

text \<open>\<^verbatim>\<open>new Date(year, month, date)\<close>: the arguments are local time; \<open>None\<close> is NaN.\<close>

definition Date_ymd :: "int \<Rightarrow> int option \<Rightarrow> int option \<Rightarrow> int \<Rightarrow> jsdate" where
  "Date_ymd tza year month dt =
     (case (year, month) of
        (Some y, Some m) \<Rightarrow> TimeClip (UTC tza (MakeDate (MakeDay (MakeFullYear y) m dt) 0))
      | _ \<Rightarrow> None)"

text \<open>\<^verbatim>\<open>d.setHours(h, m, s, ms)\<close>: the new time value (which the call also returns).\<close>

definition setHours :: "int \<Rightarrow> jsdate \<Rightarrow> int option \<Rightarrow> int option \<Rightarrow> int \<Rightarrow> int \<Rightarrow> jsdate" where
  "setHours tza d h m s ms =
     (case (d, h, m) of
        (Some t, Some hv, Some mv) \<Rightarrow>
          TimeClip (UTC tza (MakeDate (Day (LocalTime tza t)) (MakeTime hv mv s ms)))
      | _ \<Rightarrow> None)"

text \<open>\<^verbatim>\<open>d.setHours(h)\<close> with one argument keeps the minutes, seconds and milliseconds.\<close>

definition setHours1 :: "int \<Rightarrow> jsdate \<Rightarrow> int option \<Rightarrow> jsdate" where
  "setHours1 tza d h =
     (case (d, h) of
        (Some t, Some hv) \<Rightarrow>
          (let lt = LocalTime tza t in
           TimeClip (UTC tza (MakeDate (Day lt)
             (MakeTime hv (MinFromTime lt) (SecFromTime lt) (msFromTime lt)))))
      | _ \<Rightarrow> None)"

definition setDate :: "int \<Rightarrow> jsdate \<Rightarrow> int option \<Rightarrow> jsdate" where
  "setDate tza d dt =
     (case (d, dt) of
        (Some t, Some dv) \<Rightarrow>
          (let lt = LocalTime tza t in
           TimeClip (UTC tza (MakeDate (MakeDay (YearFromTime lt) (MonthFromTime lt) dv)
             (TimeWithinDay lt))))
      | _ \<Rightarrow> None)"

definition getDay :: "int \<Rightarrow> jsdate \<Rightarrow> int option" where
  "getDay tza d = map_option (\<lambda>t. WeekDay (LocalTime tza t)) d"

definition getDate :: "int \<Rightarrow> jsdate \<Rightarrow> int option" where
  "getDate tza d = map_option (\<lambda>t. DateFromTime (LocalTime tza t)) d"

definition getHours :: "int \<Rightarrow> jsdate \<Rightarrow> int option" where
  "getHours tza d = map_option (\<lambda>t. HourFromTime (LocalTime tza t)) d"

text \<open>Relational operators on numbers: a comparison with NaN is false.\<close>

definition js_lt :: "int option \<Rightarrow> int option \<Rightarrow> bool" where
  "js_lt a b = (case (a, b) of (Some x, Some y) \<Rightarrow> x < y | _ \<Rightarrow> False)"

definition js_le :: "int option \<Rightarrow> int option \<Rightarrow> bool" where
  "js_le a b = (case (a, b) of (Some x, Some y) \<Rightarrow> x \<le> y | _ \<Rightarrow> False)"

text \<open>\<open>a + b\<close> on numbers, NaN propagating.\<close>

definition js_add :: "int option \<Rightarrow> int option \<Rightarrow> int option" where
  "js_add a b = (case (a, b) of (Some x, Some y) \<Rightarrow> Some (x + y) | _ \<Rightarrow> None)"


section \<open>Strings\<close>

text \<open>
  Strings are lists of characters; the model covers ASCII text. \<open>digit\<close> writes one
  decimal digit and \<open>pad k n\<close> the last \<open>k\<close> decimal digits of \<open>n\<close>, as the fixed-width
  fields of \<^verbatim>\<open>toISOString\<close> are written.
\<close>

definition decimal_digits :: string where
  "decimal_digits = ''0123456789''"

definition digit :: "int \<Rightarrow> char" where
  "digit n = decimal_digits ! nat (n mod 10)"

definition digit_val :: "char \<Rightarrow> int option" where
  "digit_val = map_of (zip decimal_digits [0, 1, 2, 3, 4, 5, 6, 7, 8, 9])"

definition hex_val :: "char \<Rightarrow> int option" where
  "hex_val = map_of (zip (decimal_digits @ ''abcdefABCDEF'')
                       [0, 1, 2, 3, 4, 5, 6, 7, 8, 9, 10, 11, 12, 13, 14, 15,
                        10, 11, 12, 13, 14, 15])"

fun pad :: "nat \<Rightarrow> int \<Rightarrow> string" where
  "pad 0 n = []"
| "pad (Suc k) n = pad k (n div 10) @ [digit (n mod 10)]"

text \<open>The year of \<^verbatim>\<open>toISOString\<close>: four digits from 0 to 9999, otherwise a sign and six
  digits (the expanded years of ECMA-262).\<close>

definition isoYear :: "int \<Rightarrow> string" where
  "isoYear y = (if 0 \<le> y \<and> y \<le> 9999 then pad 4 y
                else (if y < 0 then ''-'' else ''+'') @ pad 6 \<bar>y\<bar>)"

datatype jserror = RangeError | TypeError | Rejected

text \<open>\<^verbatim>\<open>d.toISOString()\<close> throws a RangeError on an Invalid Date.\<close>

definition isoDate :: "int \<Rightarrow> string" where
  "isoDate t = isoYear (YearFromTime t) @ ''-'' @ pad 2 (MonthFromTime t + 1) @ ''-''
                 @ pad 2 (DateFromTime t)"

definition isoTime :: "int \<Rightarrow> string" where
  "isoTime t = pad 2 (HourFromTime t) @ '':'' @ pad 2 (MinFromTime t) @ '':''
                 @ pad 2 (SecFromTime t) @ ''.'' @ pad 3 (msFromTime t)"

definition toISOString :: "jsdate \<Rightarrow> jserror + string" where
  "toISOString d =
     (case d of
        None \<Rightarrow> Inl RangeError
      | Some t \<Rightarrow> Inr (isoDate t @ ''T'' @ isoTime t @ ''Z''))"

text \<open>\<^verbatim>\<open>s.slice(a, b)\<close> for indices \<open>0 \<le> a \<le> b\<close>.\<close>

definition slice :: "nat \<Rightarrow> nat \<Rightarrow> string \<Rightarrow> string" where
  "slice a b s = take (b - a) (drop a s)"

text \<open>\<^verbatim>\<open>s.split(c)\<close> for a separator of one character: never empty.\<close>

fun split :: "char \<Rightarrow> string \<Rightarrow> string list" where
  "split c [] = [[]]"
| "split c (x # xs) =
     (if x = c then [] # split c xs
      else (case split c xs of p # ps \<Rightarrow> (x # p) # ps | [] \<Rightarrow> [[x]]))"

text \<open>\<^verbatim>\<open>xs[i]\<close>: \<open>None\<close> is \<^verbatim>\<open>undefined\<close>.\<close>

definition at :: "'a list \<Rightarrow> nat \<Rightarrow> 'a option" where
  "at xs i = (if i < length xs then Some (xs ! i) else None)"

text \<open>\<^verbatim>\<open>s.replace(c, '')\<close> for a pattern of one character: its first occurrence goes.\<close>

definition replace_empty :: "char \<Rightarrow> string \<Rightarrow> string" where
  "replace_empty c s = remove1 c s"

definition is_space :: "char \<Rightarrow> bool" where
  "is_space c = (c = CHR '' '' \<or> c = CHR 0x09 \<or> c = CHR 0x0A \<or> c = CHR 0x0B
                 \<or> c = CHR 0x0C \<or> c = CHR 0x0D)"

text \<open>The value of a digit string in a radix, most significant digit first.\<close>

definition digits_value :: "int \<Rightarrow> int list \<Rightarrow> int" where
  "digits_value r ds = foldl (\<lambda>acc v. acc * r + v) 0 ds"

text \<open>
  \<^verbatim>\<open>parseInt(s)\<close> without a radix: leading white space and one sign are skipped, a prefix
  \<^verbatim>\<open>0x\<close> selects radix 16, the longest run of digits is read, and no digit gives NaN.
\<close>

definition parseInt :: "string \<Rightarrow> int option" where
  "parseInt s =
     (let s1 = dropWhile is_space s;
          sign = (case s1 of c # _ \<Rightarrow> (if c = CHR ''-'' then - 1 else 1) | [] \<Rightarrow> (1::int));
          s2 = (case s1 of c # r \<Rightarrow> (if c = CHR ''-'' \<or> c = CHR ''+'' then r else s1)
                | [] \<Rightarrow> s1);
          hex = (take 2 s2 = ''0x'' \<or> take 2 s2 = ''0X'');
          s3 = (if hex then drop 2 s2 else s2);
          val = (if hex then hex_val else digit_val);
          z = takeWhile (\<lambda>c. val c \<noteq> None) s3
      in if z = [] then None
         else Some (sign * digits_value (if hex then 16 else 10) (map (\<lambda>c. the (val c)) z)))"

text \<open>\<^verbatim>\<open>parseInt(x)\<close> where \<open>x\<close> may be \<^verbatim>\<open>undefined\<close> (read as the text "undefined": NaN).\<close>

definition parseInt_opt :: "string option \<Rightarrow> int option" where
  "parseInt_opt x = (case x of None \<Rightarrow> None | Some s \<Rightarrow> parseInt s)"

subsection \<open>Date strings\<close>

definition DaysInMonth :: "int \<Rightarrow> int \<Rightarrow> int" where
  "DaysInMonth y m = (let l = (if DaysInYear y = 366 then 1 else 0) in
     if m = 11 then 31 else monthStart l (m + 1) - monthStart l m)"

text \<open>A string of decimal digits only, as a number.\<close>

definition number_of :: "string \<Rightarrow> int option" where
  "number_of s = (if s \<noteq> [] \<and> list_all (\<lambda>c. digit_val c \<noteq> None) s
                  then Some (digits_value 10 (map (\<lambda>c. the (digit_val c)) s)) else None)"

definition date_of_fields :: "int \<Rightarrow> string \<Rightarrow> string \<Rightarrow> string \<Rightarrow> int option" where
  "date_of_fields sign ys ms ds =
     (case (number_of ys, number_of ms, number_of ds) of
        (Some y, Some m, Some d) \<Rightarrow>
          (if 1 \<le> m \<and> m \<le> 12 \<and> 1 \<le> d \<and> d \<le> DaysInMonth (sign * y) (m - 1)
           then Some (MakeDate (MakeDay (sign * y) (m - 1) d) 0) else None)
      | _ \<Rightarrow> None)"


text \<open>
  The date-only forms of the ECMA-262 date-time string format, \<^verbatim>\<open>YYYY-MM-DD\<close> and, with
  an expanded year, \<^verbatim>\<open>+YYYYYY-MM-DD\<close> and \<^verbatim>\<open>-YYYYYY-MM-DD\<close>: midnight UTC of that day.
\<close>

definition iso_date_only :: "string \<Rightarrow> int option" where
  "iso_date_only s =
     (if length s = 10 \<and> s ! 4 = CHR ''-'' \<and> s ! 7 = CHR ''-''
      then date_of_fields 1 (take 4 s) (slice 5 7 s) (slice 8 10 s)
      else if length s = 13 \<and> s ! 0 = CHR ''+'' \<and> s ! 7 = CHR ''-'' \<and> s ! 10 = CHR ''-''
      then date_of_fields 1 (slice 1 7 s) (slice 8 10 s) (slice 11 13 s)
      else if length s = 13 \<and> s ! 0 = CHR ''-'' \<and> s ! 7 = CHR ''-'' \<and> s ! 10 = CHR ''-''
              \<and> slice 1 7 s \<noteq> ''000000''
      then date_of_fields (- 1) (slice 1 7 s) (slice 8 10 s) (slice 11 13 s)
      else None)"


section \<open>Values, collaborators and stored data\<close>

text \<open>The values a JSON request body gives its fields (numbers are integers here;
  nested objects and arrays are not modelled). \<open>Undefined\<close> is a missing field.\<close>

datatype jsval = Undefined | Null | Bool bool | Num int | Str string

fun truthy :: "jsval \<Rightarrow> bool" where
  "truthy Undefined = False"
| "truthy Null = False"
| "truthy (Bool b) = b"
| "truthy (Num n) = (n \<noteq> 0)"
| "truthy (Str s) = (s \<noteq> [])"

text \<open>
  The host: its time zone offset \<open>tza\<close>, the current instant \<open>now\<close> (what \<^verbatim>\<open>new Date()\<close>
  holds), and \<open>parse_other\<close>, the engine's \<^verbatim>\<open>Date.parse\<close> on every string that is not of a
  date-only form (other forms of the standard format and the fallbacks that ECMA-262
  leaves to the implementation).
\<close>

record host =
  tza :: int
  now :: int
  parse_other :: "string \<Rightarrow> int option"

definition Date_parse :: "host \<Rightarrow> string \<Rightarrow> jsdate" where
  "Date_parse h s =
     (case iso_date_only s of
        Some t \<Rightarrow> TimeClip t
      | None \<Rightarrow> (case parse_other h s of Some t \<Rightarrow> TimeClip t | None \<Rightarrow> None))"

text \<open>\<^verbatim>\<open>new Date(v)\<close>: a string is parsed, any other value is converted to a number.\<close>

fun Date_new :: "host \<Rightarrow> jsval \<Rightarrow> jsdate" where
  "Date_new h (Str s) = Date_parse h s"
| "Date_new h (Num n) = TimeClip n"
| "Date_new h (Bool b) = TimeClip (if b then 1 else 0)"
| "Date_new h Null = TimeClip 0"
| "Date_new h Undefined = None"

text \<open>
  A Date object holds a time value within \<open>maxTime\<close> of the epoch, or NaN. \<open>clip\<close> is the
  identity on such values; the handlers below apply it where a Date comes in from a
  collaborator, so that they only ever compute with values a Date can hold.
\<close>

definition clip :: "jsdate \<Rightarrow> jsdate" where
  "clip d = (case d of None \<Rightarrow> None | Some t \<Rightarrow> TimeClip t)"

text \<open>
  An event of the external calendar as the handlers read it. \<open>ev_start\<close> is \<open>None\<close> when
  \<^verbatim>\<open>event.start?.dateTime\<close> is missing (an all-day event) and otherwise the Date that
  \<^verbatim>\<open>new Date(event.start.dateTime)\<close> gives; \<open>ev_end\<close> likewise.
\<close>

record gevent =
  ev_start :: "jsdate option"
  ev_end :: "jsdate option"

text \<open>The event that the booking route submits (its summary and description, texts
  interpolated from the request, are left out).\<close>

record new_event =
  ne_start :: string
  ne_end :: string
  ne_attendee :: jsval

record closedDay =
  cd_date :: jsdate
  cd_reason :: jsval
  cd_type :: jsval

record booking =
  bk_id :: string
  bk_date :: jsdate
  bk_startTime :: jsdate
  bk_endTime :: jsdate
  bk_customerName :: jsval
  bk_customerEmail :: jsval
  bk_customerPhone :: jsval
  bk_duration :: jsval
  bk_shootingType :: jsval
  bk_message :: jsval
  bk_googleEventId :: string

text \<open>The confirmation mail (its HTML body is left out).\<close>

record mail =
  mail_to :: jsval
  mail_subject :: string

text \<open>
  The collaborators are parameters. \<open>events_list c lo hi\<close> is the answer of
  \<^verbatim>\<open>calendar.events.list\<close> to the range from \<open>lo\<close> to \<open>hi\<close> (\<^verbatim>\<open>timeMin\<close>, \<^verbatim>\<open>timeMax\<close>): a
  rejection, or \<^verbatim>\<open>data.items\<close>, which may be undefined (\<open>None\<close>). \<open>events_insert\<close> answers
  with the identifier of the created event. \<open>find_ok\<close>, \<open>booking_save\<close> and \<open>sendMail\<close> say
  whether the record store and the mail transport fulfil the call.
\<close>

record collab =
  events_list :: "int \<Rightarrow> int \<Rightarrow> jserror + gevent list option"
  events_insert :: "new_event \<Rightarrow> jserror + string"
  find_ok :: bool
  booking_save :: "booking \<Rightarrow> bool"
  sendMail :: "mail \<Rightarrow> bool"

text \<open>What exists outside the process: the events created in the external calendar, the
  two collections of the record store, and the mails sent.\<close>

record world =
  w_calendar :: "(string \<times> new_event) list"
  w_bookings :: "booking list"
  w_closedDays :: "closedDay list"
  w_outbox :: "mail list"

text \<open>A JSON response: 200 with \<^verbatim>\<open>success: true\<close> and a payload, or 400 or 500 with
  \<^verbatim>\<open>success: false\<close> and a fixed error text.\<close>

datatype 'a response = Json200 'a | Json400 | Json500

section \<open>Utility functions\<close>

definition isWeekend :: "int \<Rightarrow> jsdate \<Rightarrow> bool" where
  "isWeekend z date = (getDay z date = Some 0)"

definition holidays :: "string list" where
  "holidays = [''01-01'', ''01-06'', ''04-25'', ''05-01'', ''06-02'', ''08-15'', ''11-01'',
               ''12-08'', ''12-25'', ''12-26'']"

definition isHoliday :: "jsdate \<Rightarrow> jserror + bool" where
  "isHoliday date =
     (case toISOString date of
        Inl e \<Rightarrow> Inl e
      | Inr s \<Rightarrow> Inr (slice 5 10 s \<in> set holidays))"

record businessHours =
  bh_start :: int
  bh_end :: int
  bh_slots :: "string list"

definition getBusinessHours :: businessHours where
  "getBusinessHours = \<lparr>bh_start = 9, bh_end = 18,
     bh_slots = [''09:00'', ''10:00'', ''11:00'', ''12:00'', ''13:00'', ''14:00'', ''15:00'',
                 ''16:00'', ''17:00'']\<rparr>"

text \<open>\<^verbatim>\<open>xs.some(f)\<close>, \<^verbatim>\<open>xs.filter(f)\<close> and \<^verbatim>\<open>xs.forEach\<close> with a callback that may throw: the
  first exception ends the iteration, and \<open>some\<close> stops at the first hit.\<close>

fun some_err :: "('a \<Rightarrow> jserror + bool) \<Rightarrow> 'a list \<Rightarrow> jserror + bool" where
  "some_err f [] = Inr False"
| "some_err f (x # xs) =
     (case f x of Inl e \<Rightarrow> Inl e | Inr b \<Rightarrow> (if b then Inr True else some_err f xs))"

fun filter_err :: "('a \<Rightarrow> jserror + bool) \<Rightarrow> 'a list \<Rightarrow> jserror + 'a list" where
  "filter_err f [] = Inr []"
| "filter_err f (x # xs) =
     (case f x of
        Inl e \<Rightarrow> Inl e
      | Inr b \<Rightarrow> (case filter_err f xs of
                    Inl e \<Rightarrow> Inl e
                  | Inr ys \<Rightarrow> Inr (if b then x # ys else ys)))"

fun map_err :: "('a \<Rightarrow> jserror + 'b) \<Rightarrow> 'a list \<Rightarrow> jserror + 'b list" where
  "map_err f [] = Inr []"
| "map_err f (x # xs) =
     (case f x of
        Inl e \<Rightarrow> Inl e
      | Inr y \<Rightarrow> (case map_err f xs of Inl e \<Rightarrow> Inl e | Inr ys \<Rightarrow> Inr (y # ys)))"


section \<open>Facts about time values\<close>

text \<open>The calendar arithmetic of ECMA-262: a year starts where the one before ends,
  \<open>YearFromTime\<close> is the year ECMA-262 defines, and setting the date to the day after
  moves a Date by exactly one day (which is why the loop of the month view ends).\<close>

lemma div_step:
  fixes a n :: int
  assumes n: "0 < n"
  shows "(a + 1) div n = a div n + (if n dvd a + 1 then 1 else 0)"
proof (cases "a mod n + 1 < n")
  case True
  have "a + 1 = n * (a div n) + (a mod n + 1)" by simp
  moreover have "0 \<le> a mod n + 1" using n by (simp add: add_nonneg_nonneg)
  ultimately have d: "(a + 1) div n = a div n" and m: "(a + 1) mod n = a mod n + 1"
    using True int_div_pos_eq int_mod_pos_eq by blast+
  have "0 \<le> a mod n" using n by simp
  then have "(a + 1) mod n \<noteq> 0" using m by linarith
  then have "\<not> n dvd a + 1" using mod_eq_0_iff_dvd by blast
  then show ?thesis using d by simp
next
  case False
  have "a mod n < n" using n by simp
  then have r: "a mod n + 1 = n" using False by linarith
  have "a + 1 = n * (a div n) + (a mod n + 1)" by simp
  then have "a + 1 = n * (a div n) + n" using r by linarith
  then have e: "a + 1 = n * (a div n + 1) + 0" by (simp add: distrib_left)
  then have d: "(a + 1) div n = a div n + 1"
    using n int_div_pos_eq [of "a + 1" n "a div n + 1" 0] by simp
  have "n dvd a + 1" using e by (metis add.right_neutral dvd_triv_left)
  then show ?thesis using d by simp
qed

lemma dvd_shift:
  fixes y n k :: int
  assumes "n dvd k"
  shows "n dvd y - k \<longleftrightarrow> n dvd y"
  by (simp add: assms dvd_diff_left_iff)

lemma leap_dvd:
  "DaysInYear y = 365 + (if 4 dvd y then 1 else 0) - (if 100 dvd y then 1 else 0)
                      + (if 400 dvd y then 1 else 0)"
proof -
  have a: "100 dvd y \<Longrightarrow> 4 dvd y" by (rule dvd_trans [of 4 100 y]) simp_all
  have b: "400 dvd y \<Longrightarrow> 100 dvd y" by (rule dvd_trans [of 100 400 y]) simp_all
  show ?thesis using a b by (auto simp: DaysInYear_def)
qed

lemma DayFromYear_Suc: "DayFromYear (y + 1) = DayFromYear y + DaysInYear y"
proof -
  have s4: "(y - 1969 + 1) div 4 = (y - 1969) div 4 + (if 4 dvd y then 1 else 0)"
    using div_step [of 4 "y - 1969"] dvd_shift [of 4 1968 y] by simp
  have s100: "(y - 1901 + 1) div 100 = (y - 1901) div 100 + (if 100 dvd y then 1 else 0)"
    using div_step [of 100 "y - 1901"] dvd_shift [of 100 1900 y] by simp
  have s400: "(y - 1601 + 1) div 400 = (y - 1601) div 400 + (if 400 dvd y then 1 else 0)"
    using div_step [of 400 "y - 1601"] dvd_shift [of 400 1600 y] by simp
  have e: "y + 1 - 1969 = y - 1969 + 1" "y + 1 - 1901 = y - 1901 + 1"
    "y + 1 - 1601 = y - 1601 + 1" by simp_all
  show ?thesis
    unfolding DayFromYear_def e s4 s100 s400 leap_dvd by (simp only: algebra_simps)
qed

lemma DaysInYear_bounds: "365 \<le> DaysInYear y" "DaysInYear y \<le> 366"
  by (simp_all add: DaysInYear_def)

lemma DayFromYear_add: "DayFromYear y + 365 * int n \<le> DayFromYear (y + int n)"
proof (induction n)
  case 0
  then show ?case by simp
next
  case (Suc n)
  have "DayFromYear (y + int (Suc n)) = DayFromYear (y + int n + 1)" by (simp add: algebra_simps)
  also have "\<dots> = DayFromYear (y + int n) + DaysInYear (y + int n)" by (rule DayFromYear_Suc)
  finally show ?case using Suc DaysInYear_bounds(1) [of "y + int n"] by simp
qed

lemma DayFromYear_mono: "y \<le> y' \<Longrightarrow> DayFromYear y \<le> DayFromYear y'"
  using DayFromYear_add [of y "nat (y' - y)"] by simp

lemma DayFromYear_strict: "y < y' \<Longrightarrow> DayFromYear y < DayFromYear y'"
  using DayFromYear_mono [of "y + 1" y'] DayFromYear_Suc [of y] DaysInYear_bounds(1) [of y]
  by simp

lemma divmodE:
  fixes a n :: int
  assumes "0 < n"
  obtains q r where "a = n * q + r" "0 \<le> r" "r < n" "a div n = q"
  using assms by (metis mult_div_mod_eq pos_mod_sign pos_mod_bound)

lemma year_estimate:
  fixes d :: int
  defines "q \<equiv> (400 * d) div 146097"
  shows "DayFromYear (1969 + q) \<le> d" and "d < DayFromYear (1972 + q)"
proof -
  obtain q0 r where r: "400 * d = 146097 * q0 + r" "0 \<le> r" "r < 146097" "(400 * d) div 146097 = q0"
    using divmodE [of 146097 "400 * d"] by auto
  have q0: "q0 = q" using r(4) q_def by simp
  obtain a ra where a: "q = 4 * a + ra" "0 \<le> ra" "ra < 4" "q div 4 = a"
    using divmodE [of 4 q] by auto
  obtain b rb where b: "q + 68 = 100 * b + rb" "0 \<le> rb" "rb < 100" "(q + 68) div 100 = b"
    using divmodE [of 100 "q + 68"] by auto
  obtain c rc where c: "q + 368 = 400 * c + rc" "0 \<le> rc" "rc < 400" "(q + 368) div 400 = c"
    using divmodE [of 400 "q + 368"] by auto
  have lo: "DayFromYear (1969 + q) = 365 * (q - 1) + a - b + c"
    using a(4) b(4) c(4) by (simp add: DayFromYear_def add.commute)
  have "400 * a \<le> 100 * q" using a(1-3) by linarith
  moreover have "- (400 * b) \<le> 124 - 4 * q" using b(1-3) by linarith
  moreover have "400 * c \<le> q + 368" using c(1-3) by linarith
  ultimately have "146000 * q - 146000 + 400 * a - 400 * b + 400 * c \<le> 146097 * q"
    by linarith
  moreover have "400 * DayFromYear (1969 + q) = 146000 * q - 146000 + 400 * a - 400 * b + 400 * c"
    unfolding lo by (simp add: algebra_simps)
  ultimately have "400 * DayFromYear (1969 + q) \<le> 400 * d" using r(1,2) q0 by linarith
  then show "DayFromYear (1969 + q) \<le> d" by simp
  obtain a' ra' where a': "q + 3 = 4 * a' + ra'" "0 \<le> ra'" "ra' < 4" "(q + 3) div 4 = a'"
    using divmodE [of 4 "q + 3"] by auto
  obtain b' rb' where b': "q + 71 = 100 * b' + rb'" "0 \<le> rb'" "rb' < 100" "(q + 71) div 100 = b'"
    using divmodE [of 100 "q + 71"] by auto
  obtain c' rc' where c': "q + 371 = 400 * c' + rc'" "0 \<le> rc'" "rc' < 400" "(q + 371) div 400 = c'"
    using divmodE [of 400 "q + 371"] by auto
  have hi: "DayFromYear (1972 + q) = 365 * (q + 2) + a' - b' + c'"
    using a'(4) b'(4) c'(4) by (simp add: DayFromYear_def add.commute)
  have "100 * q \<le> 400 * a'" using a'(1-3) by linarith
  moreover have "- (4 * q) - 284 \<le> - (400 * b')" using b'(1-3) by linarith
  moreover have "q - 28 \<le> 400 * c'" using c'(1-3) by linarith
  ultimately have "146097 * q + 146097 \<le> 146000 * q + 292000 + 400 * a' - 400 * b' + 400 * c'"
    by linarith
  moreover have "400 * DayFromYear (1972 + q) = 146000 * q + 292000 + 400 * a' - 400 * b' + 400 * c'"
    unfolding hi by (simp add: algebra_simps)
  ultimately have "400 * d < 400 * DayFromYear (1972 + q)" using r(1,3) q0 by linarith
  then show "d < DayFromYear (1972 + q)" by simp
qed

lemma YearFromTime_spec:
  "DayFromYear (YearFromTime t) \<le> Day t" "Day t < DayFromYear (YearFromTime t + 1)"
  using year_estimate [of "Day t"]
  by (auto simp: YearFromTime_def Let_def add.commute)

lemma YearFromTime_unique:
  assumes "DayFromYear y \<le> Day t" "Day t < DayFromYear (y + 1)"
  shows "YearFromTime t = y"
proof (rule ccontr)
  assume n: "YearFromTime t \<noteq> y"
  show False
  proof (cases "YearFromTime t < y")
    case True
    then have "DayFromYear (YearFromTime t + 1) \<le> DayFromYear y"
      by (intro DayFromYear_mono) simp
    then show False using YearFromTime_spec(2) [of t] assms(1) by linarith
  next
    case False
    then have "DayFromYear (y + 1) \<le> DayFromYear (YearFromTime t)"
      using n by (intro DayFromYear_mono) simp
    then show False using YearFromTime_spec(1) [of t] assms(2) by linarith
  qed
qed


lemma MonthFromTime_range: "0 \<le> MonthFromTime t" "MonthFromTime t \<le> 11"
  by (simp_all add: MonthFromTime_def Let_def)

lemma MakeDay_inverse:
  "MakeDay (YearFromTime t) (MonthFromTime t) (DateFromTime t + k) = Day t + k"
proof -
  have "MonthFromTime t div 12 = 0" "MonthFromTime t mod 12 = MonthFromTime t"
    using MonthFromTime_range [of t] by simp_all
  then show ?thesis
    by (simp add: MakeDay_def DateFromTime_def DayWithinYear_def InLeapYear_def)
qed

lemma Day_TimeWithinDay: "Day t * msPerDay + TimeWithinDay t = t"
  by (simp add: Day_def TimeWithinDay_def)

lemma setDate_next:
  "setDate z (Some t) (js_add (getDate z (Some t)) (Some 1)) = TimeClip (t + msPerDay)"
proof -
  have "MakeDate (Day (t + z) + 1) (TimeWithinDay (t + z)) = t + z + msPerDay"
    using Day_TimeWithinDay [of "t + z"] by (simp add: MakeDate_def algebra_simps)
  then show ?thesis
    by (simp add: setDate_def getDate_def js_add_def LocalTime_def UTC_def MakeDay_inverse)
qed


section \<open>GET /api/calendar/:year/:month\<close>

datatype status = available | occupied | closed

record calendarDay =
  cal_date :: string
  cal_status :: status
  cal_bookings :: nat

text \<open>The callbacks of the loop body: does a closed day, or the start of an event, fall
  on the day written \<open>dateStr\<close>? (\<^verbatim>\<open>toISOString().split('T')[0] === dateStr\<close>)\<close>

definition closed_on :: "string \<Rightarrow> closedDay \<Rightarrow> jserror + bool" where
  "closed_on dateStr day =
     (case toISOString (clip (cd_date day)) of
        Inl e \<Rightarrow> Inl e
      | Inr s \<Rightarrow> Inr (hd (split CHR ''T'' s) = dateStr))"

definition event_on :: "string \<Rightarrow> gevent \<Rightarrow> jserror + bool" where
  "event_on dateStr event =
     (case ev_start event of
        None \<Rightarrow> Inr False
      | Some d \<Rightarrow>
          (case toISOString (clip d) of
             Inl e \<Rightarrow> Inl e
           | Inr s \<Rightarrow> Inr (hd (split CHR ''T'' s) = dateStr)))"

text \<open>One pass of the loop body for the Date \<open>currentDate\<close>: the entry pushed.\<close>

definition month_entry ::
  "int \<Rightarrow> closedDay list \<Rightarrow> gevent list option \<Rightarrow> jsdate \<Rightarrow> jserror + calendarDay" where
  "month_entry z closedDays items currentDate =
     (case toISOString currentDate of
        Inl e \<Rightarrow> Inl e
      | Inr isoStr \<Rightarrow>
     (let dateStr = hd (split CHR ''T'' isoStr);
          status1 = (if isWeekend z currentDate then closed else available)
      in case isHoliday currentDate of
        Inl e \<Rightarrow> Inl e
      | Inr holiday \<Rightarrow>
     (let status2 = (if holiday then closed else status1)
      in case some_err (closed_on dateStr) closedDays of
        Inl e \<Rightarrow> Inl e
      | Inr isClosed \<Rightarrow>
     (let status3 = (if isClosed then closed else status2)
      in case (case items of None \<Rightarrow> Inr False
               | Some evs \<Rightarrow> some_err (event_on dateStr) evs) of
        Inl e \<Rightarrow> Inl e
      | Inr hasBookings \<Rightarrow>
     (let status4 = (if hasBookings \<and> status3 = available then occupied else status3)
      in case (if hasBookings
               then (case filter_err (event_on dateStr) (case items of None \<Rightarrow> [] | Some evs \<Rightarrow> evs) of
                       Inl e \<Rightarrow> Inl e
                     | Inr evs \<Rightarrow> Inr (length evs))
               else Inr 0) of
        Inl e \<Rightarrow> Inl e
      | Inr n \<Rightarrow> Inr \<lparr>cal_date = dateStr, cal_status = status4, cal_bookings = n\<rparr>)))))"

text \<open>\<^verbatim>\<open>while (currentDate <= endDate) { ...; currentDate.setDate(currentDate.getDate() + 1) }\<close>\<close>

function month_loop ::
  "int \<Rightarrow> closedDay list \<Rightarrow> gevent list option \<Rightarrow> jsdate \<Rightarrow> jsdate \<Rightarrow> calendarDay list
   \<Rightarrow> jserror + calendarDay list" where
  "month_loop z closedDays items currentDate endDate calendarData =
     (if js_le currentDate endDate
      then (case month_entry z closedDays items currentDate of
              Inl e \<Rightarrow> Inl e
            | Inr entry \<Rightarrow>
                month_loop z closedDays items
                  (setDate z currentDate (js_add (getDate z currentDate) (Some 1)))
                  endDate (calendarData @ [entry]))
      else Inr calendarData)"
  by pat_completeness auto
termination
proof (relation "measure (\<lambda>(z, cds, items, cur, en, acc).
    (case (cur, en) of (Some c, Some e) \<Rightarrow> nat (e - c + 1) | _ \<Rightarrow> 0))")
  show "wf (measure (\<lambda>(z, cds, items, cur, en, acc).
    (case (cur, en) of (Some c, Some e) \<Rightarrow> nat (e - c + 1) | _ \<Rightarrow> 0)))"
    by simp
next
  fix z :: int and closedDays :: "closedDay list" and items :: "gevent list option"
    and currentDate endDate :: jsdate and calendarData :: "calendarDay list"
    and entry :: calendarDay
  assume le: "js_le currentDate endDate"
  then obtain c e where ce: "currentDate = Some c" "endDate = Some e" "c \<le> e"
    by (auto simp: js_le_def split: option.splits)
  have "setDate z (Some c) (js_add (getDate z (Some c)) (Some 1)) = TimeClip (c + msPerDay)"
    by (rule setDate_next)
  then show "((z, closedDays, items,
      setDate z currentDate (js_add (getDate z currentDate) (Some 1)), endDate,
      calendarData @ [entry]),
     (z, closedDays, items, currentDate, endDate, calendarData))
    \<in> measure (\<lambda>(z, cds, items, cur, en, acc).
         (case (cur, en) of (Some c, Some e) \<Rightarrow> nat (e - c + 1) | _ \<Rightarrow> 0))"
    using ce by (simp add: TimeClip_def msPerDay_def)
qed

declare month_loop.simps [simp del]

text \<open>\<^verbatim>\<open>ClosedDay.find({date: {$gte: startDate, $lte: endDate}})\<close> on the stored records.\<close>

definition find_closedDays :: "collab \<Rightarrow> world \<Rightarrow> jsdate \<Rightarrow> jsdate \<Rightarrow> jserror + closedDay list" where
  "find_closedDays c w startDate endDate =
     (if find_ok c
      then Inr (filter (\<lambda>day. js_le startDate (clip (cd_date day))
                                \<and> js_le (clip (cd_date day)) endDate)
                  (w_closedDays w))
      else Inl Rejected)"

text \<open>
  The handler. \<open>year\<close> and \<open>month\<close> are the numbers that the path parameters convert to
  (\<open>None\<close> for NaN). The two \<^verbatim>\<open>toISOString\<close> calls that write \<^verbatim>\<open>timeMin\<close> and \<^verbatim>\<open>timeMax\<close> throw on
  an Invalid Date, which is the first \<open>Json500\<close>. The field \<^verbatim>\<open>month\<close> of the response, an
  echo of the parameters, is left out.
\<close>

definition month_view :: "host \<Rightarrow> collab \<Rightarrow> world \<Rightarrow> int option \<Rightarrow> int option
    \<Rightarrow> calendarDay list response" where
  "month_view h c w year month =
     (let startDate = Date_ymd (tza h) year (js_add month (Some (- 1))) 1;
          endDate = Date_ymd (tza h) year month 0
      in case (startDate, endDate) of
        (Some lo, Some hi) \<Rightarrow>
          (case events_list c lo hi of
             Inl e \<Rightarrow> Json500
           | Inr items \<Rightarrow>
               (case find_closedDays c w startDate endDate of
                  Inl e \<Rightarrow> Json500
                | Inr closedDays \<Rightarrow>
                    (case month_loop (tza h) closedDays items startDate endDate [] of
                       Inl e \<Rightarrow> Json500
                     | Inr calendarData \<Rightarrow> Json200 calendarData)))
      | _ \<Rightarrow> Json500)"

section \<open>GET /api/slots/:date\<close>

record slot =
  slot_time :: string
  slot_available :: bool
  slot_datetime :: string

text \<open>The payload: \<^verbatim>\<open>{slots: []}\<close> for a past or closed day (\<open>sp_date\<close> is \<open>None\<close>), and
  \<^verbatim>\<open>{date, slots}\<close> otherwise.\<close>

record slots_payload =
  sp_date :: "string option"
  sp_slots :: "slot list"

text \<open>\<^verbatim>\<open>slotTime >= eventStart && slotTime < eventEnd\<close>, false when either bound is missing.\<close>

definition occupies :: "jsdate \<Rightarrow> gevent \<Rightarrow> bool" where
  "occupies slotTime event =
     (case (ev_start event, ev_end event) of
        (Some eventStart, Some eventEnd) \<Rightarrow>
          js_le (clip eventStart) slotTime \<and> js_lt slotTime (clip eventEnd)
      | _ \<Rightarrow> False)"

text \<open>The body of \<^verbatim>\<open>businessHours.slots.forEach\<close> for one slot.\<close>

definition slot_entry :: "int \<Rightarrow> gevent list option \<Rightarrow> jsdate \<Rightarrow> string \<Rightarrow> jserror + slot" where
  "slot_entry z items requestDate timeSlot =
     (let parts = split CHR '':'' timeSlot;
          slotTime = setHours z requestDate (parseInt_opt (at parts 0))
                       (parseInt_opt (at parts 1)) 0 0;
          isOccupied = (case items of None \<Rightarrow> False
                        | Some evs \<Rightarrow> list_ex (occupies slotTime) evs)
      in case toISOString slotTime of
           Inl e \<Rightarrow> Inl e
         | Inr isoStr \<Rightarrow> Inr \<lparr>slot_time = timeSlot, slot_available = \<not> isOccupied,
                           slot_datetime = isoStr\<rparr>)"

text \<open>
  The handler. It receives the record store (\<open>w\<close>, where the ClosedDay records are) like
  every handler of the file, and does not read it. \<^verbatim>\<open>startOfDay.toISOString()\<close> and
  \<^verbatim>\<open>endOfDay.toISOString()\<close> throw on an Invalid Date.
\<close>

definition slots_view :: "host \<Rightarrow> collab \<Rightarrow> world \<Rightarrow> string \<Rightarrow> slots_payload response" where
  "slots_view h c w date =
     (let requestDate = Date_parse h date
      in if js_lt requestDate (setHours (tza h) (Some (now h)) (Some 0) (Some 0) 0 0)
         then Json200 \<lparr>sp_date = None, sp_slots = []\<rparr>
         else if isWeekend (tza h) requestDate
         then Json200 \<lparr>sp_date = None, sp_slots = []\<rparr>
         else (case isHoliday requestDate of
            Inl e \<Rightarrow> Json500
          | Inr holiday \<Rightarrow>
              if holiday then Json200 \<lparr>sp_date = None, sp_slots = []\<rparr>
              else (case (setHours (tza h) requestDate (Some 0) (Some 0) 0 0,
                          setHours (tza h) requestDate (Some 23) (Some 59) 59 999) of
                 (Some startOfDay, Some endOfDay) \<Rightarrow>
                   (case events_list c startOfDay endOfDay of
                      Inl e \<Rightarrow> Json500
                    | Inr items \<Rightarrow>
                        (case map_err (slot_entry (tza h) items requestDate)
                                (bh_slots getBusinessHours) of
                           Inl e \<Rightarrow> Json500
                         | Inr availableSlots \<Rightarrow>
                             Json200 \<lparr>sp_date = Some date, sp_slots = availableSlots\<rparr>))
               | _ \<Rightarrow> Json500)))"

section \<open>POST /api/bookings\<close>

record booking_request =
  rq_date :: jsval
  rq_timeSlot :: jsval
  rq_duration :: jsval
  rq_customerName :: jsval
  rq_customerEmail :: jsval
  rq_customerPhone :: jsval
  rq_shootingType :: jsval
  rq_message :: jsval

record booking_payload =
  bp_id :: string
  bp_date :: jsdate
  bp_timeSlot :: jsval
  bp_duration :: jsval
  bp_customerName :: jsval

text \<open>
  "Create booking dates": \<open>bookingDate\<close> and \<open>endDate\<close>. \<^verbatim>\<open>timeSlot.split\<close> and
  \<^verbatim>\<open>duration.replace\<close> exist on strings only; on any other value the call is a TypeError.
\<close>

definition booking_dates :: "host \<Rightarrow> booking_request \<Rightarrow> jserror + jsdate \<times> jsdate" where
  "booking_dates h rq =
     (case rq_timeSlot rq of
        Str timeSlot \<Rightarrow>
          (let parts = split CHR '':'' timeSlot;
               bookingDate = setHours (tza h) (Date_new h (rq_date rq))
                               (parseInt_opt (at parts 0)) (parseInt_opt (at parts 1)) 0 0
           in case rq_duration rq of
                Str duration \<Rightarrow>
                  (let durationHours = parseInt (replace_empty CHR ''h'' duration);
                       endDate = setHours1 (tza h) bookingDate
                                   (js_add (getHours (tza h) bookingDate) durationHours)
                   in Inr (bookingDate, endDate))
              | _ \<Rightarrow> Inl TypeError)
      | _ \<Rightarrow> Inl TypeError)"

text \<open>The event submitted to the calendar, the Booking document and the mail.\<close>

definition event_of :: "booking_request \<Rightarrow> string \<Rightarrow> string \<Rightarrow> new_event" where
  "event_of rq startIso endIso =
     \<lparr>ne_start = startIso, ne_end = endIso, ne_attendee = rq_customerEmail rq\<rparr>"

definition booking_of :: "booking_request \<Rightarrow> string \<Rightarrow> jsdate \<Rightarrow> jsdate \<Rightarrow> booking" where
  "booking_of rq gid bookingDate endDate =
     \<lparr>bk_id = gid, bk_date = bookingDate, bk_startTime = bookingDate,
      bk_endTime = endDate, bk_customerName = rq_customerName rq,
      bk_customerEmail = rq_customerEmail rq, bk_customerPhone = rq_customerPhone rq,
      bk_duration = rq_duration rq, bk_shootingType = rq_shootingType rq,
      bk_message = rq_message rq, bk_googleEventId = gid\<rparr>"

definition mail_of :: "booking_request \<Rightarrow> mail" where
  "mail_of rq = \<lparr>mail_to = rq_customerEmail rq,
                 mail_subject = ''Conferma Prenotazione - Pixel Studio''\<rparr>"

definition payload_of :: "booking_request \<Rightarrow> string \<Rightarrow> jsdate \<Rightarrow> booking_payload" where
  "payload_of rq gid bookingDate =
     \<lparr>bp_id = gid, bp_date = bookingDate, bp_timeSlot = rq_timeSlot rq,
      bp_duration = rq_duration rq, bp_customerName = rq_customerName rq\<rparr>"

text \<open>"Validate required fields": \<^verbatim>\<open>!date || !timeSlot || ...\<close>\<close>

definition missing_required :: "booking_request \<Rightarrow> bool" where
  "missing_required rq =
     (\<not> (truthy (rq_date rq) \<and> truthy (rq_timeSlot rq) \<and> truthy (rq_duration rq)
         \<and> truthy (rq_customerName rq) \<and> truthy (rq_customerEmail rq)
         \<and> truthy (rq_customerPhone rq)))"

text \<open>
  The handler: the response and the world after it. Every \<^verbatim>\<open>await\<close> is inside the one
  \<^verbatim>\<open>try\<close> block, whose \<^verbatim>\<open>catch\<close> answers 500; a call that a collaborator rejects leaves
  the world as it was before the call.
\<close>

definition create_booking :: "host \<Rightarrow> collab \<Rightarrow> world \<Rightarrow> booking_request
    \<Rightarrow> booking_payload response \<times> world" where
  "create_booking h c w rq =
     (if missing_required rq then (Json400, w)
      else case booking_dates h rq of
        Inl e \<Rightarrow> (Json500, w)
      | Inr (bookingDate, endDate) \<Rightarrow>
      (case toISOString bookingDate of
        Inl e \<Rightarrow> (Json500, w)
      | Inr startIso \<Rightarrow>
      (case toISOString endDate of
        Inl e \<Rightarrow> (Json500, w)
      | Inr endIso \<Rightarrow>
      (case events_insert c (event_of rq startIso endIso) of
        Inl e \<Rightarrow> (Json500, w)
      | Inr gid \<Rightarrow>
      (let w1 = w\<lparr>w_calendar := w_calendar w @ [(gid, event_of rq startIso endIso)]\<rparr>;
           booking = booking_of rq gid bookingDate endDate
       in if \<not> booking_save c booking then (Json500, w1)
          else
      (let w2 = w1\<lparr>w_bookings := w_bookings w1 @ [booking]\<rparr>
       in if \<not> sendMail c (mail_of rq) then (Json500, w2)
          else (Json200 (payload_of rq gid bookingDate),
                w2\<lparr>w_outbox := w_outbox w2 @ [mail_of rq]\<rparr>)))))))"

section \<open>Facts about dates and their strings\<close>




lemma Day_MakeDate:
  assumes "0 \<le> tod" "tod < msPerDay"
  shows "Day (MakeDate D tod) = D"
  unfolding Day_def MakeDate_def
  using assms int_div_pos_eq [of "D * msPerDay + tod" msPerDay D tod] by (simp add: mult.commute)

lemma DaysInYear_leap: "DaysInYear y = 365 + (if DaysInYear y = 366 then 1 else 0)"
  by (simp add: DaysInYear_def)

lemma month_cases:
  assumes "0 \<le> (m::int)" "m \<le> 11"
  shows "m = 0 \<or> m = 1 \<or> m = 2 \<or> m = 3 \<or> m = 4 \<or> m = 5 \<or> m = 6 \<or> m = 7 \<or> m = 8
         \<or> m = 9 \<or> m = 10 \<or> m = 11"
  using assms by arith

lemma ymd_of_MakeDay:
  assumes m: "0 \<le> m" "m \<le> 11" and d: "1 \<le> d" "d \<le> DaysInMonth y m"
      and t: "Day t = MakeDay y m d"
  shows "YearFromTime t = y" and "MonthFromTime t = m" and "DateFromTime t = d"
proof -
  define l :: int where "l = (if DaysInYear y = 366 then 1 else 0)"
  have l01: "l = 0 \<or> l = 1" by (simp add: l_def)
  have diy: "DaysInYear y = 365 + l" unfolding l_def by (rule DaysInYear_leap)
  have mm: "m div 12 = 0" "m mod 12 = m" using m by simp_all
  have md: "Day t = DayFromYear y + (monthStart l m + d - 1)"
    using t mm by (simp add: MakeDay_def l_def)
  have dim: "DaysInMonth y m = (if m = 11 then 31 else monthStart l (m + 1) - monthStart l m)"
    by (simp add: DaysInMonth_def l_def Let_def)
  have k: "0 \<le> monthStart l m + d - 1" "monthStart l m + d - 1 < 365 + l"
    using month_cases [OF m] l01 d unfolding dim
    by (elim disjE; simp add: monthStart_def)+
  have y: "YearFromTime t = y"
    using k md diy DayFromYear_Suc [of y] by (intro YearFromTime_unique) simp_all
  have il: "InLeapYear t = l" by (simp add: InLeapYear_def y l_def)
  have dw: "DayWithinYear t = monthStart l m + d - 1"
    by (simp add: DayWithinYear_def y md)
  have mo: "MonthFromTime t = m"
    using month_cases [OF m] l01 d unfolding dim MonthFromTime_def il dw Let_def
    by (elim disjE; simp add: monthStart_def)
  show "YearFromTime t = y" by (rule y)
  show "MonthFromTime t = m" by (rule mo)
  show "DateFromTime t = d" by (simp add: DateFromTime_def il dw mo)
qed

text \<open>The decimal fields of \<^verbatim>\<open>toISOString\<close>: \<open>pad\<close> writes digits only, and reading them back
  gives the number.\<close>

lemma length_pad: "length (pad k n) = k"
  by (induction k arbitrary: n) simp_all

lemma mod10_cases:
  "(n::int) mod 10 = 0 \<or> n mod 10 = 1 \<or> n mod 10 = 2 \<or> n mod 10 = 3 \<or> n mod 10 = 4
   \<or> n mod 10 = 5 \<or> n mod 10 = 6 \<or> n mod 10 = 7 \<or> n mod 10 = 8 \<or> n mod 10 = 9"
proof -
  have "0 \<le> n mod 10" "n mod 10 < 10" by simp_all
  then show ?thesis by arith
qed

lemma digit_val_digit: "digit_val (digit n) = Some (n mod 10)"
  using mod10_cases [of n]
  by (elim disjE; simp add: digit_def digit_val_def decimal_digits_def)

lemma digit_in: "digit n \<in> set decimal_digits"
  using mod10_cases [of n]
  by (elim disjE; simp add: digit_def decimal_digits_def)

lemma digits_value_snoc: "digits_value r (ds @ [v]) = digits_value r ds * r + v"
  by (simp add: digits_value_def)

lemma pad_digits: "list_all (\<lambda>c. digit_val c \<noteq> None) (pad k n)"
  by (induction k arbitrary: n) (simp_all add: digit_val_digit)

lemma pad_value:
  "digits_value 10 (map (\<lambda>c. the (digit_val c)) (pad k n)) = n mod 10 ^ k"
proof (induction k arbitrary: n)
  case 0
  then show ?case by (simp add: digits_value_def)
next
  case (Suc k)
  have "n mod (10 * 10 ^ k) = 10 * (n div 10 mod 10 ^ k) + n mod 10"
    using zmod_zmult2_eq [of "10 ^ k" n 10] by simp
  then show ?case
    by (simp add: digits_value_snoc digit_val_digit Suc mult.commute)
qed

lemma number_of_pad: "0 < k \<Longrightarrow> number_of (pad k n) = Some (n mod 10 ^ k)"
  using length_pad [of k n] pad_digits [of k n] by (auto simp: number_of_def pad_value)

lemma pad_inject:
  assumes "pad k a = pad k b" "0 \<le> a" "a < 10 ^ k" "0 \<le> b" "b < 10 ^ k"
  shows "a = b"
proof (cases "k = 0")
  case True
  then show ?thesis using assms by simp
next
  case False
  then have "Some (a mod 10 ^ k) = Some (b mod 10 ^ k)"
    using number_of_pad [of k a] number_of_pad [of k b] assms(1) by simp
  then show ?thesis using assms by simp
qed

text \<open>What \<^verbatim>\<open>toISOString().split('T')[0]\<close> and \<^verbatim>\<open>toISOString().slice(5, 10)\<close> hold.\<close>

lemma split_nonempty: "split c s \<noteq> []"
  by (induction s) (auto split: list.splits)

lemma hd_split: "c \<notin> set a \<Longrightarrow> hd (split c (a @ c # r)) = a"
proof (induction a)
  case Nil
  then show ?case by simp
next
  case (Cons x a)
  then show ?case using split_nonempty [of c "a @ c # r"]
    by (auto split: list.splits)
qed

lemma set_pad: "set (pad k n) \<subseteq> set decimal_digits"
  by (induction k arbitrary: n) (auto simp: digit_in)

lemma isoDate_chars: "set (isoDate t) \<subseteq> set decimal_digits \<union> {CHR ''-'', CHR ''+''}"
  using set_pad by (auto simp: isoDate_def isoYear_def)

lemma toISOString_date:
  assumes "toISOString (Some t) = Inr s"
  shows "hd (split CHR ''T'' s) = isoDate t"
proof -
  have "CHR ''T'' \<notin> set (isoDate t)"
    using isoDate_chars [of t] by (auto simp: decimal_digits_def)
  then show ?thesis
    using assms hd_split [of "CHR ''T''" "isoDate t" "isoTime t @ ''Z''"]
    by (auto simp: toISOString_def)
qed

lemma toISOString_slice:
  assumes "toISOString (Some t) = Inr s" "0 \<le> YearFromTime t" "YearFromTime t \<le> 9999"
  shows "slice 5 10 s = pad 2 (MonthFromTime t + 1) @ ''-'' @ pad 2 (DateFromTime t)"
  using assms length_pad [of 4 "YearFromTime t"] length_pad [of 2 "MonthFromTime t + 1"]
    length_pad [of 2 "DateFromTime t"]
  by (auto simp: toISOString_def isoDate_def isoYear_def slice_def)

lemma DayWithinYear_range: "0 \<le> DayWithinYear t" "DayWithinYear t < 365 + InLeapYear t"
proof -
  show "0 \<le> DayWithinYear t"
    using YearFromTime_spec(1) [of t] by (simp add: DayWithinYear_def)
  have "DaysInYear (YearFromTime t) = 365 + InLeapYear t"
    unfolding InLeapYear_def by (rule DaysInYear_leap)
  then show "DayWithinYear t < 365 + InLeapYear t"
    using YearFromTime_spec(2) [of t] DayFromYear_Suc [of "YearFromTime t"]
    by (simp add: DayWithinYear_def)
qed

lemma DateFromTime_range: "1 \<le> DateFromTime t" "DateFromTime t \<le> 31"
proof -
  have l: "InLeapYear t = 0 \<or> InLeapYear t = 1" by (simp add: InLeapYear_def)
  show "1 \<le> DateFromTime t"
    using DayWithinYear_range [of t] l
    by (elim disjE; simp add: DateFromTime_def MonthFromTime_def monthStart_def Let_def)
  show "DateFromTime t \<le> 31"
    using DayWithinYear_range [of t] l
    by (elim disjE; simp add: DateFromTime_def MonthFromTime_def monthStart_def Let_def)
qed

text \<open>Two Dates have the same \<^verbatim>\<open>toISOString().split('T')[0]\<close> only when they fall on the same
  UTC day.\<close>

lemma Day_range:
  assumes "\<bar>t\<bar> \<le> maxTime"
  shows "- 100000000 \<le> Day t" "Day t \<le> 100000000"
proof -
  have "- maxTime \<le> t" "t \<le> maxTime" using assms by simp_all
  then have "(- maxTime) div msPerDay \<le> t div msPerDay" "t div msPerDay \<le> maxTime div msPerDay"
    by (simp_all add: zdiv_mono1 msPerDay_def)
  then show "- 100000000 \<le> Day t" "Day t \<le> 100000000"
    by (simp_all add: Day_def maxTime_def msPerDay_def)
qed

lemma year_range:
  assumes "\<bar>t\<bar> \<le> maxTime"
  shows "- 271821 \<le> YearFromTime t" "YearFromTime t \<le> 275760"
proof -
  show "- 271821 \<le> YearFromTime t"
  proof (rule ccontr)
    assume "\<not> - 271821 \<le> YearFromTime t"
    then have "DayFromYear (YearFromTime t + 1) \<le> DayFromYear (- 271821)"
      by (intro DayFromYear_mono) simp
    then show False
      using YearFromTime_spec(2) [of t] Day_range(1) [OF assms] by (simp add: DayFromYear_def)
  qed
  show "YearFromTime t \<le> 275760"
  proof (rule ccontr)
    assume "\<not> YearFromTime t \<le> 275760"
    then have "DayFromYear 275761 \<le> DayFromYear (YearFromTime t)"
      by (intro DayFromYear_mono) simp
    then show False
      using YearFromTime_spec(1) [of t] Day_range(2) [OF assms] by (simp add: DayFromYear_def)
  qed
qed

lemma isoYear_inject:
  assumes "isoYear a = isoYear b" "\<bar>a\<bar> < 1000000" "\<bar>b\<bar> < 1000000"
  shows "a = b"
proof -
  have len: "length (isoYear y) = (if 0 \<le> y \<and> y \<le> 9999 then 4 else 7)" for y
    by (simp add: isoYear_def length_pad)
  show ?thesis
  proof (cases "0 \<le> a \<and> a \<le> 9999")
    case True
    then have b: "0 \<le> b \<and> b \<le> 9999" using len [of a] len [of b] assms(1) by (simp split: if_splits)
    then have "pad 4 a = pad 4 b" using True assms(1) by (simp add: isoYear_def)
    then show ?thesis using pad_inject [of 4 a b] True b by simp
  next
    case False
    then have b: "\<not> (0 \<le> b \<and> b \<le> 9999)" using len [of a] len [of b] assms(1) by (simp split: if_splits)
    have ya: "isoYear a = (if a < 0 then ''-'' else ''+'') @ pad 6 \<bar>a\<bar>"
      unfolding isoYear_def by (rule if_not_P [OF False])
    have yb: "isoYear b = (if b < 0 then ''-'' else ''+'') @ pad 6 \<bar>b\<bar>"
      unfolding isoYear_def by (rule if_not_P [OF b])
    have e: "(if a < 0 then ''-'' else ''+'') @ pad 6 \<bar>a\<bar> = (if b < 0 then ''-'' else ''+'') @ pad 6 \<bar>b\<bar>"
      using assms(1) unfolding ya yb .
    then have s: "(a < 0) = (b < 0)" by (simp split: if_splits)
    from e have "pad 6 \<bar>a\<bar> = pad 6 \<bar>b\<bar>" by (simp split: if_splits)
    then have "\<bar>a\<bar> = \<bar>b\<bar>" using pad_inject [of 6 "\<bar>a\<bar>" "\<bar>b\<bar>"] assms(2,3) by simp
    then show ?thesis using s by linarith
  qed
qed

lemma isoDate_inject:
  assumes "isoDate t = isoDate u" "\<bar>t\<bar> \<le> maxTime" "\<bar>u\<bar> \<le> maxTime"
  shows "Day t = Day u"
proof -
  let ?rest = "\<lambda>x. ''-'' @ pad 2 (MonthFromTime x + 1) @ ''-'' @ pad 2 (DateFromTime x)"
  have e: "isoYear (YearFromTime t) @ ?rest t = isoYear (YearFromTime u) @ ?rest u"
    using assms(1) by (simp add: isoDate_def)
  have "length (?rest t) = length (?rest u)" by (simp add: length_pad)
  then have "length (isoYear (YearFromTime t)) = length (isoYear (YearFromTime u))"
    using arg_cong [OF e, of length] by simp
  then have y: "isoYear (YearFromTime t) = isoYear (YearFromTime u)" and r: "?rest t = ?rest u"
    using e by simp_all
  have yy: "YearFromTime t = YearFromTime u"
    using y year_range [OF assms(2)] year_range [OF assms(3)]
    by (intro isoYear_inject) simp_all
  have "pad 2 (MonthFromTime t + 1) = pad 2 (MonthFromTime u + 1)"
    and dd: "pad 2 (DateFromTime t) = pad 2 (DateFromTime u)"
    using r length_pad [of 2 "MonthFromTime t + 1"] length_pad [of 2 "MonthFromTime u + 1"]
    by simp_all
  then have "MonthFromTime t + 1 = MonthFromTime u + 1"
    using MonthFromTime_range [of t] MonthFromTime_range [of u]
    by (intro pad_inject [of 2]) simp_all
  moreover have "DateFromTime t = DateFromTime u"
    using dd DateFromTime_range [of t] DateFromTime_range [of u]
    by (intro pad_inject [of 2]) simp_all
  ultimately show ?thesis
    using yy MakeDay_inverse [of t 0] MakeDay_inverse [of u 0] by simp
qed

text \<open>A date string \<^verbatim>\<open>YYYY-MM-DD\<close> parses to midnight UTC of that day, and the days of
  the years 0 to 9999 are far inside the range of time values.\<close>

lemma DaysInMonth_range:
  assumes "0 \<le> m" "m \<le> 11"
  shows "28 \<le> DaysInMonth y m" "DaysInMonth y m \<le> 31"
  using month_cases [OF assms]
  by (elim disjE; simp add: DaysInMonth_def monthStart_def Let_def)+



section \<open>Example hosts, collaborators and requests\<close>

text \<open>A host in the Europe/Rome winter offset on 2026-11-02T21:00:00Z, and one on UTC;
  their engines accept the date-only forms and nothing else.\<close>

definition rome_host :: host where
  "rome_host = \<lparr>tza = 3600000, now = 1793653200000, parse_other = (\<lambda>s. None)\<rparr>"

definition utc_host :: host where
  "utc_host = \<lparr>tza = 0, now = 1793653200000, parse_other = (\<lambda>s. None)\<rparr>"

text \<open>Collaborators that fulfil every call; the calendar holds no event.\<close>

definition ok_collab :: collab where
  "ok_collab = \<lparr>events_list = (\<lambda>lo hi. Inr (Some [])), events_insert = (\<lambda>e. Inr ''evt1''),
     find_ok = True, booking_save = (\<lambda>b. True), sendMail = (\<lambda>m. True)\<rparr>"

definition empty_world :: world where
  "empty_world = \<lparr>w_calendar = [], w_bookings = [], w_closedDays = [], w_outbox = []\<rparr>"

definition sample_request :: booking_request where
  "sample_request = \<lparr>rq_date = Str ''2030-01-02'', rq_timeSlot = Str ''14:00'',
     rq_duration = Str ''2h'', rq_customerName = Str ''Ada'',
     rq_customerEmail = Str ''ada@example.org'', rq_customerPhone = Str ''0612345'',
     rq_shootingType = Undefined, rq_message = Undefined\<rparr>"

lemma sample_dates:
  "booking_dates rome_host sample_request = Inr (Some 1893589200000, Some 1893596400000)"
  by code_simp

lemma sample_start_iso: "toISOString (Some 1893589200000) = Inr ''2030-01-02T13:00:00.000Z''"
  by code_simp

lemma sample_end_iso: "toISOString (Some 1893596400000) = Inr ''2030-01-02T15:00:00.000Z''"
  by code_simp

section \<open>The closure policy\<close>

text \<open>The ten fixed holidays as (month, day).\<close>

definition holiday_days :: "(int \<times> int) list" where
  "holiday_days = [(1, 1), (1, 6), (4, 25), (5, 1), (6, 2), (8, 15), (11, 1), (12, 8),
                   (12, 25), (12, 26)]"

lemma holiday_strings: "map (\<lambda>(m, d). pad 2 m @ ''-'' @ pad 2 d) holiday_days = holidays"
  by code_simp

lemma holiday_day_bounds:
  assumes "(m, d) \<in> set holiday_days"
  shows "1 \<le> m" "m \<le> 12" "1 \<le> d" "d \<le> 28"
  using assms by (auto simp: holiday_days_def)

text \<open>
  Claim C4, as amended. For every year from 0 to 9999 and each of the ten holidays,
  \<open>isHoliday\<close> is true on every Date that falls on that day of that year in UTC, at any
  time of the day; the Date parsed from the string \<^verbatim>\<open>YYYY-MM-DD\<close> is one (midnight).
\<close>

theorem holiday_in_every_four_digit_year:
  assumes hd: "(m, d) \<in> set holiday_days" and y: "0 \<le> y" "y \<le> 9999"
      and tod: "0 \<le> tod" "tod < msPerDay"
  shows "isHoliday (Some (MakeDate (MakeDay y (m - 1) d) tod)) = Inr True"
proof -
  let ?t = "MakeDate (MakeDay y (m - 1) d) tod"
  note b = holiday_day_bounds [OF hd]
  have dm: "d \<le> DaysInMonth y (m - 1)"
    using DaysInMonth_range(1) [of "m - 1" y] b by simp
  have day: "Day ?t = MakeDay y (m - 1) d" using tod by (rule Day_MakeDate)
  have f: "YearFromTime ?t = y" "MonthFromTime ?t = m - 1" "DateFromTime ?t = d"
    using ymd_of_MakeDay [of "m - 1" d y ?t] b dm day by simp_all
  obtain s where s: "toISOString (Some ?t) = Inr s" by (simp add: toISOString_def)
  have "slice 5 10 s = pad 2 m @ ''-'' @ pad 2 d"
    using toISOString_slice [OF s] f y by simp
  moreover have "pad 2 m @ ''-'' @ pad 2 d \<in> set (map (\<lambda>(m, d). pad 2 m @ ''-'' @ pad 2 d) holiday_days)"
    using hd by force
  ultimately have "slice 5 10 s \<in> set holidays" by (simp only: holiday_strings)
  then show ?thesis using s by (simp add: isHoliday_def)
qed

theorem holiday_in_every_four_digit_year_witness:
  "(12, 25) \<in> set holiday_days
   \<and> isHoliday (Some (MakeDate (MakeDay 2025 (12 - 1) 25) 0)) = Inr True"
  using holiday_in_every_four_digit_year [of 12 25 2025 0]
  by (simp add: holiday_days_def msPerDay_def)

text \<open>
  Claim C4 as stated (every year, that calendar date) fails outside these bounds. From
  the year 10000 on \<^verbatim>\<open>toISOString\<close> writes a sign and six digits, and \<^verbatim>\<open>slice(5, 10)\<close> no
  longer holds the month and the day. And the Date of local midnight of 25 December
  2025 on a host east of UTC, as the month view makes it, is 24 December in UTC.
\<close>

theorem holiday_missed_outside:
  "toISOString (Some (MakeDate (MakeDay 10000 (12 - 1) 25) 0)) = Inr ''+010000-12-25T00:00:00.000Z''
   \<and> isHoliday (Some (MakeDate (MakeDay 10000 (12 - 1) 25) 0)) = Inr False
   \<and> toISOString (Date_ymd (tza rome_host) (Some 2025) (Some 11) 25)
       = Inr ''2025-12-24T23:00:00.000Z''
   \<and> isHoliday (Date_ymd (tza rome_host) (Some 2025) (Some 11) 25) = Inr False"
  by code_simp

section \<open>The booking transaction\<close>

text \<open>
  Claim C7. A booking request in which one of the six required fields (date, time slot,
  duration, name, email, phone) is missing is answered 400, and nothing outside the
  process changes: no event is created, no record is stored and no mail is sent.
\<close>

theorem missing_field_rejected:
  assumes "rq_date rq = Undefined \<or> rq_timeSlot rq = Undefined \<or> rq_duration rq = Undefined
         \<or> rq_customerName rq = Undefined \<or> rq_customerEmail rq = Undefined
         \<or> rq_customerPhone rq = Undefined"
  shows "create_booking h c w rq = (Json400, w)"
proof -
  have "missing_required rq"
    using assms unfolding missing_required_def by auto
  then show ?thesis by (simp add: create_booking_def)
qed

theorem missing_field_rejected_witness:
  "rq_customerPhone (sample_request\<lparr>rq_customerPhone := Undefined\<rparr>) = Undefined
   \<and> create_booking rome_host ok_collab empty_world
        (sample_request\<lparr>rq_customerPhone := Undefined\<rparr>) = (Json400, empty_world)"
  using missing_field_rejected [of "sample_request\<lparr>rq_customerPhone := Undefined\<rparr>"
      rome_host ok_collab empty_world]
  by simp


text \<open>The run of the handler once the request is complete and its dates can be
  written: one branch for each outcome of the three collaborators, in their order.\<close>

lemma create_booking_run:
  assumes "\<not> missing_required rq"
      and "booking_dates h rq = Inr (bookingDate, endDate)"
      and "toISOString bookingDate = Inr startIso"
      and "toISOString endDate = Inr endIso"
  shows "create_booking h c w rq =
     (case events_insert c (event_of rq startIso endIso) of
        Inl e \<Rightarrow> (Json500, w)
      | Inr gid \<Rightarrow>
          if \<not> booking_save c (booking_of rq gid bookingDate endDate)
          then (Json500, w\<lparr>w_calendar := w_calendar w @ [(gid, event_of rq startIso endIso)]\<rparr>)
          else if \<not> sendMail c (mail_of rq)
          then (Json500, w\<lparr>w_calendar := w_calendar w @ [(gid, event_of rq startIso endIso)],
                  w_bookings := w_bookings w @ [booking_of rq gid bookingDate endDate]\<rparr>)
          else (Json200 (payload_of rq gid bookingDate),
                w\<lparr>w_calendar := w_calendar w @ [(gid, event_of rq startIso endIso)],
                  w_bookings := w_bookings w @ [booking_of rq gid bookingDate endDate],
                  w_outbox := w_outbox w @ [mail_of rq]\<rparr>))"
  using assms by (simp add: create_booking_def Let_def split: sum.splits)

lemma create_booking_no_dates:
  assumes "\<not> missing_required rq"
      and "booking_dates h rq = Inl err
           \<or> (\<exists>bookingDate endDate. booking_dates h rq = Inr (bookingDate, endDate)
                \<and> (toISOString bookingDate = Inl err \<or> toISOString endDate = Inl err))"
  shows "create_booking h c w rq = (Json500, w)"
  using assms by (auto simp: create_booking_def Let_def split: sum.splits)

text \<open>
  Claim C8. When a step of the booking transaction fails, the later steps do not run
  and the client is answered with a failure, and what the earlier steps did stays: when
  the dates cannot be computed or written, or the calendar rejects the event, nothing
  has changed; when storing the record fails, the event created in the calendar is
  still there and no mail is sent; when the mail fails, the event and the record are
  both still there. No step deletes anything.
\<close>

theorem failure_aborts_without_undo:
  assumes "\<not> missing_required rq"
  shows "(booking_dates h rq = Inl err \<longrightarrow> create_booking h c w rq = (Json500, w))
    \<and> (booking_dates h rq = Inr (bookingDate, endDate)
         \<and> (toISOString bookingDate = Inl err \<or> toISOString endDate = Inl err)
       \<longrightarrow> create_booking h c w rq = (Json500, w))
    \<and> (booking_dates h rq = Inr (bookingDate, endDate)
         \<and> toISOString bookingDate = Inr startIso \<and> toISOString endDate = Inr endIso
         \<and> events_insert c (event_of rq startIso endIso) = Inl err
       \<longrightarrow> create_booking h c w rq = (Json500, w))
    \<and> (booking_dates h rq = Inr (bookingDate, endDate)
         \<and> toISOString bookingDate = Inr startIso \<and> toISOString endDate = Inr endIso
         \<and> events_insert c (event_of rq startIso endIso) = Inr gid
         \<and> \<not> booking_save c (booking_of rq gid bookingDate endDate)
       \<longrightarrow> create_booking h c w rq =
             (Json500, w\<lparr>w_calendar := w_calendar w @ [(gid, event_of rq startIso endIso)]\<rparr>))
    \<and> (booking_dates h rq = Inr (bookingDate, endDate)
         \<and> toISOString bookingDate = Inr startIso \<and> toISOString endDate = Inr endIso
         \<and> events_insert c (event_of rq startIso endIso) = Inr gid
         \<and> booking_save c (booking_of rq gid bookingDate endDate)
         \<and> \<not> sendMail c (mail_of rq)
       \<longrightarrow> create_booking h c w rq =
             (Json500, w\<lparr>w_calendar := w_calendar w @ [(gid, event_of rq startIso endIso)],
                w_bookings := w_bookings w @ [booking_of rq gid bookingDate endDate]\<rparr>))"
proof (intro conjI impI)
  assume "booking_dates h rq = Inl err"
  then show "create_booking h c w rq = (Json500, w)"
    using assms create_booking_no_dates by blast
next
  assume "booking_dates h rq = Inr (bookingDate, endDate)
    \<and> (toISOString bookingDate = Inl err \<or> toISOString endDate = Inl err)"
  then show "create_booking h c w rq = (Json500, w)"
    using assms create_booking_no_dates [of rq h err c w] by blast
next
  assume "booking_dates h rq = Inr (bookingDate, endDate)
    \<and> toISOString bookingDate = Inr startIso \<and> toISOString endDate = Inr endIso
    \<and> events_insert c (event_of rq startIso endIso) = Inl err"
  then show "create_booking h c w rq = (Json500, w)"
    using assms create_booking_run [of rq h bookingDate endDate startIso endIso c w] by simp
next
  assume "booking_dates h rq = Inr (bookingDate, endDate)
    \<and> toISOString bookingDate = Inr startIso \<and> toISOString endDate = Inr endIso
    \<and> events_insert c (event_of rq startIso endIso) = Inr gid
    \<and> \<not> booking_save c (booking_of rq gid bookingDate endDate)"
  then show "create_booking h c w rq =
      (Json500, w\<lparr>w_calendar := w_calendar w @ [(gid, event_of rq startIso endIso)]\<rparr>)"
    using assms create_booking_run [of rq h bookingDate endDate startIso endIso c w] by simp
next
  assume "booking_dates h rq = Inr (bookingDate, endDate)
    \<and> toISOString bookingDate = Inr startIso \<and> toISOString endDate = Inr endIso
    \<and> events_insert c (event_of rq startIso endIso) = Inr gid
    \<and> booking_save c (booking_of rq gid bookingDate endDate)
    \<and> \<not> sendMail c (mail_of rq)"
  then show "create_booking h c w rq =
      (Json500, w\<lparr>w_calendar := w_calendar w @ [(gid, event_of rq startIso endIso)],
         w_bookings := w_bookings w @ [booking_of rq gid bookingDate endDate]\<rparr>)"
    using assms create_booking_run [of rq h bookingDate endDate startIso endIso c w] by simp
qed

lemma sample_present: "\<not> missing_required sample_request"
  by (simp add: missing_required_def sample_request_def)

theorem failure_aborts_without_undo_witness:
  "create_booking rome_host (ok_collab\<lparr>events_insert := (\<lambda>e. Inl Rejected)\<rparr>) empty_world
     sample_request = (Json500, empty_world)
   \<and> create_booking rome_host (ok_collab\<lparr>booking_save := (\<lambda>b. False)\<rparr>) empty_world
     sample_request
     = (Json500, empty_world\<lparr>w_calendar :=
          [(''evt1'', event_of sample_request ''2030-01-02T13:00:00.000Z''
                        ''2030-01-02T15:00:00.000Z'')]\<rparr>)
   \<and> create_booking rome_host (ok_collab\<lparr>sendMail := (\<lambda>m. False)\<rparr>) empty_world
     sample_request
     = (Json500, empty_world\<lparr>w_calendar :=
          [(''evt1'', event_of sample_request ''2030-01-02T13:00:00.000Z''
                        ''2030-01-02T15:00:00.000Z'')],
        w_bookings := [booking_of sample_request ''evt1'' (Some 1893589200000)
                         (Some 1893596400000)]\<rparr>)"
  using failure_aborts_without_undo [OF sample_present, of rome_host Rejected
      "ok_collab\<lparr>events_insert := (\<lambda>e. Inl Rejected)\<rparr>" empty_world
      "Some 1893589200000" "Some 1893596400000" "''2030-01-02T13:00:00.000Z''"
      "''2030-01-02T15:00:00.000Z''" "''evt1''"]
    failure_aborts_without_undo [OF sample_present, of rome_host Rejected
      "ok_collab\<lparr>booking_save := (\<lambda>b. False)\<rparr>" empty_world
      "Some 1893589200000" "Some 1893596400000" "''2030-01-02T13:00:00.000Z''"
      "''2030-01-02T15:00:00.000Z''" "''evt1''"]
    failure_aborts_without_undo [OF sample_present, of rome_host Rejected
      "ok_collab\<lparr>sendMail := (\<lambda>m. False)\<rparr>" empty_world
      "Some 1893589200000" "Some 1893596400000" "''2030-01-02T13:00:00.000Z''"
      "''2030-01-02T15:00:00.000Z''" "''evt1''"]
    sample_dates sample_start_iso sample_end_iso
  by (simp add: ok_collab_def empty_world_def)


text \<open>
  Claim C2, as amended. When the confirmation mail fails after the event was created and
  the record stored, the handler answers 500, as for every other failure; the event
  and the record stay (nothing is rolled back).
\<close>

theorem notification_failure_answers_500:
  assumes "\<not> missing_required rq"
      and "booking_dates h rq = Inr (bookingDate, endDate)"
      and "toISOString bookingDate = Inr startIso"
      and "toISOString endDate = Inr endIso"
      and "events_insert c (event_of rq startIso endIso) = Inr gid"
      and "booking_save c (booking_of rq gid bookingDate endDate)"
      and "\<not> sendMail c (mail_of rq)"
  shows "create_booking h c w rq =
     (Json500, w\<lparr>w_calendar := w_calendar w @ [(gid, event_of rq startIso endIso)],
        w_bookings := w_bookings w @ [booking_of rq gid bookingDate endDate]\<rparr>)"
  using assms create_booking_run [of rq h bookingDate endDate startIso endIso c w] by simp

theorem notification_failure_answers_500_witness:
  "create_booking rome_host (ok_collab\<lparr>sendMail := (\<lambda>m. False)\<rparr>) empty_world sample_request
   = (Json500, empty_world\<lparr>w_calendar :=
        [(''evt1'', event_of sample_request ''2030-01-02T13:00:00.000Z''
                      ''2030-01-02T15:00:00.000Z'')],
      w_bookings := [booking_of sample_request ''evt1'' (Some 1893589200000)
                       (Some 1893596400000)]\<rparr>)"
  using notification_failure_answers_500 [OF sample_present sample_dates sample_start_iso
      sample_end_iso, of "ok_collab\<lparr>sendMail := (\<lambda>m. False)\<rparr>" "''evt1''" empty_world]
  by (simp add: ok_collab_def empty_world_def)

text \<open>Claim C2 as stated (the failure is swallowed and the client is answered with
  success) fails: with a mail transport that rejects, the sample request is stored and
  answered 500.\<close>

theorem notification_failure_not_swallowed:
  "fst (create_booking rome_host (ok_collab\<lparr>sendMail := (\<lambda>m. False)\<rparr>) empty_world
          sample_request) = Json500
   \<and> length (w_bookings (snd (create_booking rome_host
          (ok_collab\<lparr>sendMail := (\<lambda>m. False)\<rparr>) empty_world sample_request))) = 1"
  using create_booking_run [OF sample_present sample_dates sample_start_iso sample_end_iso,
      of "ok_collab\<lparr>sendMail := (\<lambda>m. False)\<rparr>" empty_world]
  by (simp add: ok_collab_def empty_world_def)


lemma toISOString_Some: "toISOString d = Inr s \<Longrightarrow> \<exists>t. d = Some t"
  by (cases d) (simp_all add: toISOString_def)










section \<open>The day view\<close>

text \<open>
  Claim C10. For a date before the start of the current calendar day (local midnight of
  today, \<^verbatim>\<open>new Date().setHours(0, 0, 0, 0)\<close>) the day view answers 200 with an empty slot
  list, whatever the closed days, the collaborators and the events are.
\<close>

theorem past_date_empty:
  assumes "Date_parse h date = Some t"
      and "setHours (tza h) (Some (now h)) (Some 0) (Some 0) 0 0 = Some m"
      and "t < m"
  shows "slots_view h c w date = Json200 \<lparr>sp_date = None, sp_slots = []\<rparr>"
  using assms by (simp add: slots_view_def js_lt_def)

lemma rome_today: "setHours (tza rome_host) (Some (now rome_host)) (Some 0) (Some 0) 0 0
    = Some 1793574000000"
  by code_simp

lemma parse_2026_01_02: "Date_parse rome_host ''2026-01-02'' = Some 1767312000000"
  by code_simp

theorem past_date_empty_witness:
  "slots_view rome_host ok_collab empty_world ''2026-01-02''
   = Json200 \<lparr>sp_date = None, sp_slots = []\<rparr>"
  using past_date_empty [OF parse_2026_01_02 rome_today, of ok_collab empty_world] by simp


text \<open>A ClosedDay record for 2030-01-02, a Wednesday that is no holiday, as the admin
  route stores it for the date "2030-01-02".\<close>

definition closed_2030_01_02 :: closedDay where
  "closed_2030_01_02 = \<lparr>cd_date = Some 1893542400000, cd_reason = Str ''ferie'',
     cd_type = Str ''personal''\<rparr>"

text \<open>
  Claim C1 (the day view of a closed date is empty, also when the date is closed by a
  ClosedDay record only) does not hold of the handler: it tests the weekly closure and
  the holidays and never reads the ClosedDay records. With a record for 2030-01-02 in
  the store, one that the month view's own test \<open>closed_on\<close> matches to that date, the
  day view of 2030-01-02 offers all nine slots.
\<close>

theorem declared_closure_still_offers_slots:
  "closed_on ''2030-01-02'' closed_2030_01_02 = Inr True
   \<and> slots_view rome_host ok_collab (empty_world\<lparr>w_closedDays := [closed_2030_01_02]\<rparr>)
        ''2030-01-02''
     = Json200 \<lparr>sp_date = Some ''2030-01-02'', sp_slots =
         [\<lparr>slot_time = ''09:00'', slot_available = True,
            slot_datetime = ''2030-01-02T08:00:00.000Z''\<rparr>,
          \<lparr>slot_time = ''10:00'', slot_available = True,
            slot_datetime = ''2030-01-02T09:00:00.000Z''\<rparr>,
          \<lparr>slot_time = ''11:00'', slot_available = True,
            slot_datetime = ''2030-01-02T10:00:00.000Z''\<rparr>,
          \<lparr>slot_time = ''12:00'', slot_available = True,
            slot_datetime = ''2030-01-02T11:00:00.000Z''\<rparr>,
          \<lparr>slot_time = ''13:00'', slot_available = True,
            slot_datetime = ''2030-01-02T12:00:00.000Z''\<rparr>,
          \<lparr>slot_time = ''14:00'', slot_available = True,
            slot_datetime = ''2030-01-02T13:00:00.000Z''\<rparr>,
          \<lparr>slot_time = ''15:00'', slot_available = True,
            slot_datetime = ''2030-01-02T14:00:00.000Z''\<rparr>,
          \<lparr>slot_time = ''16:00'', slot_available = True,
            slot_datetime = ''2030-01-02T15:00:00.000Z''\<rparr>,
          \<lparr>slot_time = ''17:00'', slot_available = True,
            slot_datetime = ''2030-01-02T16:00:00.000Z''\<rparr>]\<rparr>"
  by code_simp


















section \<open>The month view\<close>

text \<open>
  Modelled from the spec: the Busy-Interval Source, the external calendar, which is not
  code of this repository ("given a time range, returns the set of busy intervals known
  to exist in that range"). \<open>events_in_range evs\<close> is a calendar that holds the events
  \<open>evs\<close> and answers a query with those that start inside the range.
\<close>

definition events_in_range :: "gevent list \<Rightarrow> int \<Rightarrow> int \<Rightarrow> jserror + gevent list option" where
  "events_in_range evs lo hi =
     Inr (Some (filter (\<lambda>ev. case ev_start ev of
                              Some (Some s) \<Rightarrow> lo \<le> s \<and> s \<le> hi
                            | _ \<Rightarrow> False) evs))"

text \<open>Events in February 2026: from 10:00 to 12:00 UTC on the 27th and on the 28th, from
  01:00 to 02:00 UTC on the 28th, and from 00:00 to 01:00 UTC on the 28th.\<close>

definition booked_feb27 :: gevent where
  "booked_feb27 = \<lparr>ev_start = Some (Some 1772186400000), ev_end = Some (Some 1772193600000)\<rparr>"

definition booked_feb28 :: gevent where
  "booked_feb28 = \<lparr>ev_start = Some (Some 1772272800000), ev_end = Some (Some 1772280000000)\<rparr>"

definition early_feb28 :: gevent where
  "early_feb28 = \<lparr>ev_start = Some (Some 1772240400000), ev_end = Some (Some 1772244000000)\<rparr>"

definition midnight_feb28 :: gevent where
  "midnight_feb28 = \<lparr>ev_start = Some (Some 1772236800000), ev_end = Some (Some 1772240400000)\<rparr>"

text \<open>The events of an answer of the calendar (none when \<^verbatim>\<open>items\<close> is undefined).\<close>

definition fetched_events :: "gevent list option \<Rightarrow> gevent list" where
  "fetched_events items = (case items of None \<Rightarrow> [] | Some evs \<Rightarrow> evs)"

text \<open>Midnight UTC at the start of the last day of month \<open>m\<close> (1 to 12) of a year.\<close>

definition last_day_midnight :: "int \<Rightarrow> int \<Rightarrow> int" where
  "last_day_midnight yr m = MakeDate (MakeDay yr (m - 1) (DaysInMonth yr (m - 1))) 0"

lemma some_err_True:
  "some_err f xs = Inr True \<Longrightarrow> \<exists>x \<in> set xs. f x = Inr True"
  by (induction xs) (auto split: sum.splits if_splits)

lemma month_entry_busy:
  assumes "month_entry z cds items cur = Inr e"
      and "cal_status e = occupied \<or> 0 < cal_bookings e"
  shows "\<exists>ev \<in> set (fetched_events items). event_on (cal_date e) ev = Inr True"
proof -
  obtain isoStr where a: "toISOString cur = Inr isoStr"
    using assms(1) by (cases "toISOString cur") (simp_all add: month_entry_def)
  let ?L = "hd (split CHR ''T'' isoStr)"
  obtain holiday where b: "isHoliday cur = Inr holiday"
    using assms(1) a by (cases "isHoliday cur") (simp_all add: month_entry_def Let_def)
  obtain isClosed where c: "some_err (closed_on ?L) cds = Inr isClosed"
    using assms(1) a b
    by (cases "some_err (closed_on ?L) cds") (simp_all add: month_entry_def Let_def)
  obtain hasBookings where d: "(case items of None \<Rightarrow> Inr False
                         | Some evs \<Rightarrow> some_err (event_on ?L) evs) = Inr hasBookings"
    using assms(1) a b c
    by (cases "case items of None \<Rightarrow> Inr False | Some evs \<Rightarrow> some_err (event_on ?L) evs")
      (simp_all add: month_entry_def Let_def)
  let ?st = "if isClosed then closed else if holiday then closed
             else if isWeekend z cur then closed else available"
  have shape: "month_entry z cds items cur =
     (case (if hasBookings
            then (case filter_err (event_on ?L) (case items of None \<Rightarrow> [] | Some evs \<Rightarrow> evs) of
                    Inl e \<Rightarrow> Inl e
                  | Inr evs \<Rightarrow> Inr (length evs))
            else Inr 0) of
        Inl e \<Rightarrow> Inl e
      | Inr n \<Rightarrow> Inr \<lparr>cal_date = ?L,
          cal_status = (if hasBookings \<and> ?st = available then occupied else ?st),
          cal_bookings = n\<rparr>)"
    by (simp add: month_entry_def Let_def a b c d)
  have "hasBookings"
  proof (rule ccontr)
    assume "\<not> hasBookings"
    then have "e = \<lparr>cal_date = ?L, cal_status = ?st, cal_bookings = 0\<rparr>"
      using assms(1) shape by simp
    then show False using assms(2) by (simp split: if_splits)
  qed
  moreover have "cal_date e = ?L"
    using assms(1) unfolding shape by (auto split: sum.splits if_splits)
  ultimately obtain evs where "items = Some evs"
    and "some_err (event_on (cal_date e)) evs = Inr True"
    using d by (cases items) simp_all
  then show ?thesis using some_err_True [of "event_on (cal_date e)" evs]
    by (simp add: fetched_events_def)
qed

lemma month_loop_busy:
  assumes "month_loop z cds items cur en acc = Inr data" and "e \<in> set data"
      and "cal_status e = occupied \<or> 0 < cal_bookings e"
  shows "e \<in> set acc \<or> (\<exists>ev \<in> set (fetched_events items). event_on (cal_date e) ev = Inr True)"
  using assms
proof (induction z cds items cur en acc rule: month_loop.induct)
  case (1 z closedDays items currentDate endDate calendarData)
  show ?case
  proof (cases "js_le currentDate endDate")
    case False
    then show ?thesis using "1.prems" by (simp add: month_loop.simps [of z closedDays items currentDate])
  next
    case True
    then obtain entry where en: "month_entry z closedDays items currentDate = Inr entry"
      and rest: "month_loop z closedDays items
                  (setDate z currentDate (js_add (getDate z currentDate) (Some 1)))
                  endDate (calendarData @ [entry]) = Inr data"
      using "1.prems"(1)
      by (simp add: month_loop.simps [of z closedDays items currentDate] split: sum.splits)
    have "e \<in> set (calendarData @ [entry])
        \<or> (\<exists>ev \<in> set (fetched_events items). event_on (cal_date e) ev = Inr True)"
      using "1.IH" [OF True en rest "1.prems"(2,3)] .
    then show ?thesis using month_entry_busy [OF en] "1.prems"(3) by auto
  qed
qed

lemma event_on_True:
  assumes "event_on L ev = Inr True"
  shows "\<exists>s. ev_start ev = Some (Some s) \<and> \<bar>s\<bar> \<le> maxTime \<and> isoDate s = L"
proof -
  from assms obtain d str where d: "ev_start ev = Some d"
    and str: "toISOString (clip d) = Inr str" and L: "hd (split CHR ''T'' str) = L"
    by (auto simp: event_on_def split: option.splits sum.splits)
  from str obtain s where s: "clip d = Some s" using toISOString_Some by blast
  then have "d = Some s" "\<bar>s\<bar> \<le> maxTime"
    by (auto simp: clip_def TimeClip_def split: option.splits if_splits)
  moreover have "isoDate s = L" using toISOString_date [of s str] str s L by simp
  ultimately show ?thesis using d by blast
qed

lemma MakeDay_day0:
  assumes "1 \<le> m" "m \<le> 12"
  shows "MakeDay yr m 0 = MakeDay yr (m - 1) (DaysInMonth yr (m - 1))"
proof (cases "m = 12")
  case True
  have "DayFromYear (yr + 1) = DayFromYear yr + DaysInYear yr" by (rule DayFromYear_Suc)
  then show ?thesis using True DaysInYear_leap [of yr]
    by (simp add: MakeDay_def DaysInMonth_def monthStart_def)
next
  case False
  then have "0 \<le> m - 1" "m - 1 \<le> 10" "m div 12 = 0" "m mod 12 = m"
    "(m - 1) div 12 = 0" "(m - 1) mod 12 = m - 1"
    using assms by simp_all
  then show ?thesis by (simp add: MakeDay_def DaysInMonth_def Let_def)
qed

text \<open>
  Claim C9, as amended. The month view asks the calendar for the range from local
  midnight at the start of the first day of the month to local midnight at the start of
  its last day. Given a calendar that honours the upper bound (it returns no event that
  starts after it), on a host at UTC offset 0 the entry of the last day of the month is
  reported occupied, or with a busy count above 0, only when a fetched event starts
  exactly at that midnight.
\<close>

theorem last_day_needs_midnight_start:
  assumes utc: "tza h = 0"
      and m: "1 \<le> m" "m \<le> 12"
      and view: "month_view h c w (Some y) (Some m) = Json200 data"
      and fetched: "events_list c (MakeDate (MakeDay (MakeFullYear y) (m - 1) 1) 0)
                      (last_day_midnight (MakeFullYear y) m) = Inr items"
      and honoured: "\<forall>ev \<in> set (fetched_events items). \<forall>s.
                       ev_start ev = Some (Some s) \<longrightarrow> s \<le> last_day_midnight (MakeFullYear y) m"
      and entry: "e \<in> set data" "cal_date e = isoDate (last_day_midnight (MakeFullYear y) m)"
      and busy: "cal_status e = occupied \<or> 0 < cal_bookings e"
  shows "\<exists>ev \<in> set (fetched_events items).
           ev_start ev = Some (Some (last_day_midnight (MakeFullYear y) m))"
proof -
  let ?lo = "MakeDate (MakeDay (MakeFullYear y) (m - 1) 1) 0"
  let ?hi = "last_day_midnight (MakeFullYear y) m"
  have sd: "Date_ymd (tza h) (Some y) (js_add (Some m) (Some (- 1))) 1 = TimeClip ?lo"
    by (simp add: Date_ymd_def js_add_def UTC_def utc)
  have ed: "Date_ymd (tza h) (Some y) (Some m) 0 = TimeClip ?hi"
    using MakeDay_day0 [OF m, of "MakeFullYear y"]
    by (simp add: Date_ymd_def UTC_def utc last_day_midnight_def)
  from view obtain lo hi where lh: "TimeClip ?lo = Some lo" "TimeClip ?hi = Some hi"
    unfolding month_view_def Let_def sd ed by (auto split: option.splits)
  then have lo: "lo = ?lo" and hi: "hi = ?hi" and hib: "\<bar>?hi\<bar> \<le> maxTime"
    by (auto simp: TimeClip_def split: if_splits)
  from view obtain cds where loop: "month_loop 0 cds items (Some ?lo) (Some ?hi) [] = Inr data"
    unfolding month_view_def Let_def sd ed using lh lo hi fetched utc
    by (auto split: sum.splits)
  obtain ev where ev: "ev \<in> set (fetched_events items)" "event_on (cal_date e) ev = Inr True"
    using month_loop_busy [OF loop entry(1) busy] by auto
  obtain s where s: "ev_start ev = Some (Some s)" "\<bar>s\<bar> \<le> maxTime" "isoDate s = cal_date e"
    using event_on_True [OF ev(2)] by blast
  have "Day s = Day ?hi" using isoDate_inject [of s ?hi] s entry(2) hib by simp
  moreover have "Day ?hi * msPerDay = ?hi"
    using Day_MakeDate [of 0] by (simp add: last_day_midnight_def MakeDate_def msPerDay_def)
  moreover have "Day s * msPerDay \<le> s"
    using Day_TimeWithinDay [of s] by (simp add: TimeWithinDay_def msPerDay_def)
  ultimately have "?hi \<le> s" by simp
  moreover have "s \<le> ?hi" using honoured ev(1) s(1) by blast
  ultimately show ?thesis using ev(1) s(1) by auto
qed


lemma midnight_view:
  "month_view utc_host (ok_collab\<lparr>events_list := events_in_range [midnight_feb28]\<rparr>) empty_world
     (Some 2026) (Some 2)
   = Json200
     [\<lparr>cal_date = ''2026-02-01'', cal_status = closed, cal_bookings = 0\<rparr>,
      \<lparr>cal_date = ''2026-02-02'', cal_status = available, cal_bookings = 0\<rparr>,
      \<lparr>cal_date = ''2026-02-03'', cal_status = available, cal_bookings = 0\<rparr>,
      \<lparr>cal_date = ''2026-02-04'', cal_status = available, cal_bookings = 0\<rparr>,
      \<lparr>cal_date = ''2026-02-05'', cal_status = available, cal_bookings = 0\<rparr>,
      \<lparr>cal_date = ''2026-02-06'', cal_status = available, cal_bookings = 0\<rparr>,
      \<lparr>cal_date = ''2026-02-07'', cal_status = available, cal_bookings = 0\<rparr>,
      \<lparr>cal_date = ''2026-02-08'', cal_status = closed, cal_bookings = 0\<rparr>,
      \<lparr>cal_date = ''2026-02-09'', cal_status = available, cal_bookings = 0\<rparr>,
      \<lparr>cal_date = ''2026-02-10'', cal_status = available, cal_bookings = 0\<rparr>,
      \<lparr>cal_date = ''2026-02-11'', cal_status = available, cal_bookings = 0\<rparr>,
      \<lparr>cal_date = ''2026-02-12'', cal_status = available, cal_bookings = 0\<rparr>,
      \<lparr>cal_date = ''2026-02-13'', cal_status = available, cal_bookings = 0\<rparr>,
      \<lparr>cal_date = ''2026-02-14'', cal_status = available, cal_bookings = 0\<rparr>,
      \<lparr>cal_date = ''2026-02-15'', cal_status = closed, cal_bookings = 0\<rparr>,
      \<lparr>cal_date = ''2026-02-16'', cal_status = available, cal_bookings = 0\<rparr>,
      \<lparr>cal_date = ''2026-02-17'', cal_status = available, cal_bookings = 0\<rparr>,
      \<lparr>cal_date = ''2026-02-18'', cal_status = available, cal_bookings = 0\<rparr>,
      \<lparr>cal_date = ''2026-02-19'', cal_status = available, cal_bookings = 0\<rparr>,
      \<lparr>cal_date = ''2026-02-20'', cal_status = available, cal_bookings = 0\<rparr>,
      \<lparr>cal_date = ''2026-02-21'', cal_status = available, cal_bookings = 0\<rparr>,
      \<lparr>cal_date = ''2026-02-22'', cal_status = closed, cal_bookings = 0\<rparr>,
      \<lparr>cal_date = ''2026-02-23'', cal_status = available, cal_bookings = 0\<rparr>,
      \<lparr>cal_date = ''2026-02-24'', cal_status = available, cal_bookings = 0\<rparr>,
      \<lparr>cal_date = ''2026-02-25'', cal_status = available, cal_bookings = 0\<rparr>,
      \<lparr>cal_date = ''2026-02-26'', cal_status = available, cal_bookings = 0\<rparr>,
      \<lparr>cal_date = ''2026-02-27'', cal_status = available, cal_bookings = 0\<rparr>,
      \<lparr>cal_date = ''2026-02-28'', cal_status = occupied, cal_bookings = 1\<rparr>]"
  by code_simp

lemma midnight_facts:
  "tza utc_host = 0"
  "events_list (ok_collab\<lparr>events_list := events_in_range [midnight_feb28]\<rparr>)
     (MakeDate (MakeDay (MakeFullYear 2026) (2 - 1) 1) 0) (last_day_midnight (MakeFullYear 2026) 2)
   = Inr (Some [midnight_feb28])"
  "isoDate (last_day_midnight (MakeFullYear 2026) 2) = ''2026-02-28''"
  "last_day_midnight (MakeFullYear 2026) 2 = 1772236800000"
  by code_simp+

theorem last_day_needs_midnight_start_witness:
  "ev_start midnight_feb28 = Some (Some (last_day_midnight (MakeFullYear 2026) 2))"
proof -
  let ?e = "\<lparr>cal_date = ''2026-02-28'', cal_status = occupied, cal_bookings = 1\<rparr>"
  have honoured: "\<forall>ev \<in> set (fetched_events (Some [midnight_feb28])). \<forall>s.
      ev_start ev = Some (Some s) \<longrightarrow> s \<le> last_day_midnight (MakeFullYear 2026) 2"
    by (simp add: fetched_events_def midnight_facts(4) midnight_feb28_def)
  have "\<exists>ev \<in> set (fetched_events (Some [midnight_feb28])).
      ev_start ev = Some (Some (last_day_midnight (MakeFullYear 2026) 2))"
    using last_day_needs_midnight_start [OF midnight_facts(1) _ _ midnight_view
        midnight_facts(2) honoured, of ?e]
    by (simp add: midnight_facts(3))
  then show ?thesis by (simp add: fetched_events_def)
qed

text \<open>
  Claim C5 (an entry is occupied when a busy interval starts on its date) does not hold
  of the handler on the last day of the month. The calendar holds a booking from 10:00
  to 12:00 on 27 February 2026 and one on 28 February. The handler's range ends at 00:00
  of the 28th, the calendar answers with the first booking only, and the 28th is
  reported available with no booking.
\<close>

theorem last_day_bookings_not_reported:
  "toISOString (Some 1772272800000) = Inr ''2026-02-28T10:00:00.000Z''
   \<and> month_view utc_host (ok_collab\<lparr>events_list := events_in_range [booked_feb27, booked_feb28]\<rparr>)
        empty_world (Some 2026) (Some 2)
     = Json200
     [\<lparr>cal_date = ''2026-02-01'', cal_status = closed, cal_bookings = 0\<rparr>,
      \<lparr>cal_date = ''2026-02-02'', cal_status = available, cal_bookings = 0\<rparr>,
      \<lparr>cal_date = ''2026-02-03'', cal_status = available, cal_bookings = 0\<rparr>,
      \<lparr>cal_date = ''2026-02-04'', cal_status = available, cal_bookings = 0\<rparr>,
      \<lparr>cal_date = ''2026-02-05'', cal_status = available, cal_bookings = 0\<rparr>,
      \<lparr>cal_date = ''2026-02-06'', cal_status = available, cal_bookings = 0\<rparr>,
      \<lparr>cal_date = ''2026-02-07'', cal_status = available, cal_bookings = 0\<rparr>,
      \<lparr>cal_date = ''2026-02-08'', cal_status = closed, cal_bookings = 0\<rparr>,
      \<lparr>cal_date = ''2026-02-09'', cal_status = available, cal_bookings = 0\<rparr>,
      \<lparr>cal_date = ''2026-02-10'', cal_status = available, cal_bookings = 0\<rparr>,
      \<lparr>cal_date = ''2026-02-11'', cal_status = available, cal_bookings = 0\<rparr>,
      \<lparr>cal_date = ''2026-02-12'', cal_status = available, cal_bookings = 0\<rparr>,
      \<lparr>cal_date = ''2026-02-13'', cal_status = available, cal_bookings = 0\<rparr>,
      \<lparr>cal_date = ''2026-02-14'', cal_status = available, cal_bookings = 0\<rparr>,
      \<lparr>cal_date = ''2026-02-15'', cal_status = closed, cal_bookings = 0\<rparr>,
      \<lparr>cal_date = ''2026-02-16'', cal_status = available, cal_bookings = 0\<rparr>,
      \<lparr>cal_date = ''2026-02-17'', cal_status = available, cal_bookings = 0\<rparr>,
      \<lparr>cal_date = ''2026-02-18'', cal_status = available, cal_bookings = 0\<rparr>,
      \<lparr>cal_date = ''2026-02-19'', cal_status = available, cal_bookings = 0\<rparr>,
      \<lparr>cal_date = ''2026-02-20'', cal_status = available, cal_bookings = 0\<rparr>,
      \<lparr>cal_date = ''2026-02-21'', cal_status = available, cal_bookings = 0\<rparr>,
      \<lparr>cal_date = ''2026-02-22'', cal_status = closed, cal_bookings = 0\<rparr>,
      \<lparr>cal_date = ''2026-02-23'', cal_status = available, cal_bookings = 0\<rparr>,
      \<lparr>cal_date = ''2026-02-24'', cal_status = available, cal_bookings = 0\<rparr>,
      \<lparr>cal_date = ''2026-02-25'', cal_status = available, cal_bookings = 0\<rparr>,
      \<lparr>cal_date = ''2026-02-26'', cal_status = available, cal_bookings = 0\<rparr>,
      \<lparr>cal_date = ''2026-02-27'', cal_status = occupied, cal_bookings = 1\<rparr>,
      \<lparr>cal_date = ''2026-02-28'', cal_status = available, cal_bookings = 0\<rparr>]"
  by code_simp

text \<open>
  Claim C9 as stated fails on a host away from UTC. Five hours west of UTC the range
  ends at 05:00 UTC of 28 February; an event that starts at 01:00 UTC on the 28th (20:00
  local time on the 27th) is fetched, and the entry of the last day is reported
  occupied by it, although it does not start at that day's midnight.
\<close>

theorem last_day_occupied_before_midnight:
  "toISOString (Some 1772240400000) = Inr ''2026-02-28T01:00:00.000Z''
   \<and> Date_ymd (- 18000000) (Some 2026) (Some 2) 0 = Some 1772254800000
   \<and> month_view (utc_host\<lparr>tza := - 18000000\<rparr>)
        (ok_collab\<lparr>events_list := events_in_range [early_feb28]\<rparr>) empty_world
        (Some 2026) (Some 2)
     = Json200
     [\<lparr>cal_date = ''2026-02-01'', cal_status = closed, cal_bookings = 0\<rparr>,
      \<lparr>cal_date = ''2026-02-02'', cal_status = available, cal_bookings = 0\<rparr>,
      \<lparr>cal_date = ''2026-02-03'', cal_status = available, cal_bookings = 0\<rparr>,
      \<lparr>cal_date = ''2026-02-04'', cal_status = available, cal_bookings = 0\<rparr>,
      \<lparr>cal_date = ''2026-02-05'', cal_status = available, cal_bookings = 0\<rparr>,
      \<lparr>cal_date = ''2026-02-06'', cal_status = available, cal_bookings = 0\<rparr>,
      \<lparr>cal_date = ''2026-02-07'', cal_status = available, cal_bookings = 0\<rparr>,
      \<lparr>cal_date = ''2026-02-08'', cal_status = closed, cal_bookings = 0\<rparr>,
      \<lparr>cal_date = ''2026-02-09'', cal_status = available, cal_bookings = 0\<rparr>,
      \<lparr>cal_date = ''2026-02-10'', cal_status = available, cal_bookings = 0\<rparr>,
      \<lparr>cal_date = ''2026-02-11'', cal_status = available, cal_bookings = 0\<rparr>,
      \<lparr>cal_date = ''2026-02-12'', cal_status = available, cal_bookings = 0\<rparr>,
      \<lparr>cal_date = ''2026-02-13'', cal_status = available, cal_bookings = 0\<rparr>,
      \<lparr>cal_date = ''2026-02-14'', cal_status = available, cal_bookings = 0\<rparr>,
      \<lparr>cal_date = ''2026-02-15'', cal_status = closed, cal_bookings = 0\<rparr>,
      \<lparr>cal_date = ''2026-02-16'', cal_status = available, cal_bookings = 0\<rparr>,
      \<lparr>cal_date = ''2026-02-17'', cal_status = available, cal_bookings = 0\<rparr>,
      \<lparr>cal_date = ''2026-02-18'', cal_status = available, cal_bookings = 0\<rparr>,
      \<lparr>cal_date = ''2026-02-19'', cal_status = available, cal_bookings = 0\<rparr>,
      \<lparr>cal_date = ''2026-02-20'', cal_status = available, cal_bookings = 0\<rparr>,
      \<lparr>cal_date = ''2026-02-21'', cal_status = available, cal_bookings = 0\<rparr>,
      \<lparr>cal_date = ''2026-02-22'', cal_status = closed, cal_bookings = 0\<rparr>,
      \<lparr>cal_date = ''2026-02-23'', cal_status = available, cal_bookings = 0\<rparr>,
      \<lparr>cal_date = ''2026-02-24'', cal_status = available, cal_bookings = 0\<rparr>,
      \<lparr>cal_date = ''2026-02-25'', cal_status = available, cal_bookings = 0\<rparr>,
      \<lparr>cal_date = ''2026-02-26'', cal_status = available, cal_bookings = 0\<rparr>,
      \<lparr>cal_date = ''2026-02-27'', cal_status = available, cal_bookings = 0\<rparr>,
      \<lparr>cal_date = ''2026-02-28'', cal_status = occupied, cal_bookings = 1\<rparr>]"
  by code_simp

end
